theory Spec2Isabelle
  imports Main
begin

section \<open>Shared data model\<close>

text \<open>
  Addresses, identifiers, signatures and hashes are JavaScript strings. Amounts are
  decimal strings that every arithmetic site reads through \<open>BigNumber.from\<close>, an
  arbitrary-precision signed integer: they are modelled as \<open>int\<close>, which leaves out
  only the exception \<open>BigNumber.from\<close> raises on a string that is not a number.
  A JavaScript exception that escapes a function (a rejected promise) is the value
  \<open>Threw\<close>; a returned \<open>Result\<close> is a sum with \<open>Inl\<close> for \<open>Result.fail\<close>.
\<close>

type_synonym address = string

datatype 'a outcome = Threw string | Returned 'a

record balance =
  to :: "address list"
  amount :: "int list"

text \<open>Reading \<open>xs[i]\<close> in JavaScript: \<open>undefined\<close> (here \<open>None\<close>) out of range.\<close>

definition at_index :: "'a list \<Rightarrow> nat \<Rightarrow> 'a option" where
  "at_index xs i = (if i < length xs then Some (xs ! i) else None)"

section \<open>Chain reader (modules/contracts/src.ts/services/ethReader.ts)\<close>

text \<open>
  \<open>ChainError\<close> carries a message, the per-attempt messages collected by the retry
  wrapper, and the \<open>canRetry\<close> flag read by the transaction sender.
\<close>

datatype chainError = ChainError (chainMessage: string) (chainErrors: "string list") (canRetry: bool)

definition ProviderNotFound :: chainError where
  "ProviderNotFound = ChainError ''ProviderNotFound'' [] False"

text \<open>An error thrown by the JSON-RPC provider and returned as \<open>Result.fail(e)\<close>.\<close>

definition thrown :: "string \<Rightarrow> chainError" where
  "thrown m = ChainError m [] False"

text \<open>
  Modelled from the spec: the constant \<open>ETH_READER_MAX_RETRIES\<close> is declared in
  the types package, which is not part of the sources at hand; the specification gives
  5 attempts for chain reads.
\<close>

definition ETH_READER_MAX_RETRIES :: int where
  "ETH_READER_MAX_RETRIES = 5"

text \<open>
  The JSON-RPC provider is the outside world. Its answers may change from one call to
  the next, so each remote call is indexed by the number of calls issued before it; that
  counter is the state threaded through the reader. \<open>Inl m\<close> is a call that throws an
  error with message \<open>m\<close>.
\<close>

record provider =
  rpc_getCode :: "nat \<Rightarrow> address \<Rightarrow> string + string"
  rpc_getBalance :: "nat \<Rightarrow> address \<Rightarrow> string + int"
  rpc_balanceOf :: "nat \<Rightarrow> address \<Rightarrow> address \<Rightarrow> string + int"
  rpc_getTotalDepositsAlice :: "nat \<Rightarrow> address \<Rightarrow> address \<Rightarrow> string + int"
  rpc_getTotalDepositsBob :: "nat \<Rightarrow> address \<Rightarrow> address \<Rightarrow> string + int"

record ethereumChainReader =
  chainProviders :: "nat \<Rightarrow> provider option"

definition AddressZero :: address where
  "AddressZero = ''0x0000000000000000000000000000000000000000''"

text \<open>
  The loop of \<open>retryWrapper\<close>:
  \<^verbatim>\<open>for (retries = 1; retries < ETH_READER_MAX_RETRIES; retries++) {
    res = await targetMethod(provider);
    if (!res.isError) { break; }
    errors[retries] = res.getError()?.message;
  }\<close>
\<close>

function retryLoop ::
  "('s \<Rightarrow> (chainError + 'a) \<times> 's) \<Rightarrow> int \<Rightarrow> (chainError + 'a) \<Rightarrow> string list \<Rightarrow> 's
     \<Rightarrow> ((chainError + 'a) \<times> string list) \<times> 's" where
  "retryLoop targetMethod retries res errs s =
     (if retries < ETH_READER_MAX_RETRIES then
        (case targetMethod s of
           (Inr v, s') \<Rightarrow> ((Inr v, errs), s')
         | (Inl e, s') \<Rightarrow> retryLoop targetMethod (retries + 1) (Inl e) (errs @ [chainMessage e]) s')
      else ((res, errs), s))"
  by pat_completeness auto
termination
  by (relation "measure (\<lambda>(t, retries, r, e, s). nat (ETH_READER_MAX_RETRIES - retries))") auto

definition retryWrapper ::
  "ethereumChainReader \<Rightarrow> nat \<Rightarrow> (provider \<Rightarrow> 's \<Rightarrow> (chainError + 'a) \<times> 's) \<Rightarrow> 's
     \<Rightarrow> (chainError + 'a) \<times> 's" where
  "retryWrapper reader chainId targetMethod s =
     (case chainProviders reader chainId of
        None \<Rightarrow> (Inl ProviderNotFound, s)
      | Some provider \<Rightarrow>
          (case targetMethod provider s of
             (Inr v, s1) \<Rightarrow> (Inr v, s1)
           | (Inl e, s1) \<Rightarrow>
               (case retryLoop (targetMethod provider) 1 (Inl e) [chainMessage e] s1 of
                  ((Inr v, errs), s2) \<Rightarrow> (Inr v, s2)
                | ((Inl e', errs), s2) \<Rightarrow>
                    (Inl (ChainError ''Could not execute rpc method'' errs False), s2))))"

definition getCode ::
  "ethereumChainReader \<Rightarrow> address \<Rightarrow> nat \<Rightarrow> nat \<Rightarrow> (chainError + string) \<times> nat" where
  "getCode reader addr chainId =
     retryWrapper reader chainId
       (\<lambda>provider t. (case rpc_getCode provider t addr of
                         Inl m \<Rightarrow> Inl (thrown m)
                       | Inr code \<Rightarrow> Inr code, Suc t))"

definition getOnchainBalance ::
  "ethereumChainReader \<Rightarrow> address \<Rightarrow> address \<Rightarrow> nat \<Rightarrow> nat \<Rightarrow> (chainError + int) \<times> nat" where
  "getOnchainBalance reader assetId balanceOf chainId =
     retryWrapper reader chainId
       (\<lambda>provider t.
          (case (if assetId = AddressZero then rpc_getBalance provider t balanceOf
                 else rpc_balanceOf provider t assetId balanceOf) of
             Inl m \<Rightarrow> Inl (thrown m)
           | Inr onchainBalance \<Rightarrow> Inr onchainBalance, Suc t))"

definition getTotalDepositedA ::
  "ethereumChainReader \<Rightarrow> address \<Rightarrow> nat \<Rightarrow> address \<Rightarrow> nat \<Rightarrow> (chainError + int) \<times> nat" where
  "getTotalDepositedA reader channelAddress chainId assetId =
     retryWrapper reader chainId
       (\<lambda>provider t.
          (case getCode reader channelAddress chainId t of
             (Inl e, t1) \<Rightarrow> (Inl e, t1)
           | (Inr code, t1) \<Rightarrow>
               if code = ''0x'' then (Inr 0, t1)
               else (case rpc_getTotalDepositsAlice provider t1 channelAddress assetId of
                       Inl m \<Rightarrow> Inl (thrown m)
                     | Inr totalDepositsAlice \<Rightarrow> Inr totalDepositsAlice, Suc t1)))"

definition getTotalDepositedB ::
  "ethereumChainReader \<Rightarrow> address \<Rightarrow> nat \<Rightarrow> address \<Rightarrow> nat \<Rightarrow> (chainError + int) \<times> nat" where
  "getTotalDepositedB reader channelAddress chainId assetId =
     retryWrapper reader chainId
       (\<lambda>provider t.
          (case getCode reader channelAddress chainId t of
             (Inl e, t1) \<Rightarrow> (Inl e, t1)
           | (Inr code, t1) \<Rightarrow>
               if code = ''0x'' then getOnchainBalance reader assetId channelAddress chainId t1
               else (case rpc_getTotalDepositsBob provider t1 channelAddress assetId of
                       Inl m \<Rightarrow> Inl (thrown m)
                     | Inr totalDepositsBob \<Rightarrow> Inr totalDepositsBob, Suc t1)))"

section \<open>Deposit reconciliation (reconcileDeposit, unnamed/part_001)\<close>

text \<open>
  \<open>reconcileDeposit\<close> receives the chain reader through its interface; only the two
  methods it calls are kept. The state \<open>'s\<close> is whatever the reader threads through
  its calls.
\<close>

record 's iVectorChainReader =
  readTotalDepositedA :: "address \<Rightarrow> nat \<Rightarrow> address \<Rightarrow> 's \<Rightarrow> (chainError + int) \<times> 's"
  readTotalDepositedB :: "address \<Rightarrow> nat \<Rightarrow> address \<Rightarrow> 's \<Rightarrow> (chainError + int) \<times> 's"

definition asChainReader :: "ethereumChainReader \<Rightarrow> nat iVectorChainReader" where
  "asChainReader reader =
     \<lparr>readTotalDepositedA = getTotalDepositedA reader,
      readTotalDepositedB = getTotalDepositedB reader\<rparr>"

record reconciled =
  rBalance :: balance
  totalDepositsAlice :: int
  totalDepositsBob :: int

text \<open>
  \<open>BigNumber.from(initialBalance.amount[i])\<close> throws when the array has no entry
  \<open>i\<close>; both entries are read only after both chain reads have succeeded.
\<close>

definition reconcileDeposit ::
  "address \<Rightarrow> nat \<Rightarrow> balance \<Rightarrow> int \<Rightarrow> int \<Rightarrow> address \<Rightarrow> 's iVectorChainReader \<Rightarrow> 's
     \<Rightarrow> (chainError + reconciled) outcome \<times> 's" where
  "reconcileDeposit channelAddress chainId initialBalance processedDepositA processedDepositB
       assetId chainReader s =
     (case readTotalDepositedA chainReader channelAddress chainId assetId s of
        (Inl e, s1) \<Rightarrow> (Returned (Inl e), s1)
      | (Inr depositsAlice, s1) \<Rightarrow>
          (case readTotalDepositedB chainReader channelAddress chainId assetId s1 of
             (Inl e, s2) \<Rightarrow> (Returned (Inl e), s2)
           | (Inr depositsBob, s2) \<Rightarrow>
               (let depositsToReconcile =
                      [depositsAlice - processedDepositA, depositsBob - processedDepositB]
                in case (at_index (amount initialBalance) 0, at_index (amount initialBalance) 1) of
                     (Some a0, Some a1) \<Rightarrow>
                       (Returned (Inr \<lparr>rBalance = initialBalance
                                          \<lparr>amount := [a0 + depositsToReconcile ! 0,
                                                      a1 + depositsToReconcile ! 1]\<rparr>,
                                        totalDepositsAlice = depositsAlice,
                                        totalDepositsBob = depositsBob\<rparr>), s2)
                   | _ \<Rightarrow> (Threw ''invalid BigNumber value'', s2))))"

section \<open>Channel state, updates and commitments\<close>

text \<open>
  Field names are global in Isabelle, so a field name that two source types share
  (\<open>channelAddress\<close>, \<open>nonce\<close>, \<open>balance\<close>, \<open>assetId\<close>, \<open>type\<close> of a
  \<open>ChannelUpdate\<close>) carries the prefix \<open>u\<close> in the update. The payloads the source
  types dynamically (\<open>details\<close>, transfer state) travel as opaque strings.
\<close>

datatype updateType = Setup | Deposit | Create | Resolve

record channelUpdate =
  uChannelAddress :: address
  fromIdentifier :: string
  toIdentifier :: string
  uType :: updateType
  uNonce :: int
  uBalance :: balance
  uAssetId :: address
  details :: string
  aliceSignature :: "string option"
  bobSignature :: "string option"

record networkContext =
  chainId :: nat
  channelFactoryAddress :: address
  transferRegistryAddress :: address

text \<open>
  \<open>const { networkContext, ...core } = newState\<close> keeps every field of the full state
  but \<open>networkContext\<close>: the full state is the core record extended by that field, and
  \<open>coreChannelState.truncate\<close> is the destructuring.
\<close>

record coreChannelState =
  channelAddress :: address
  alice :: address
  bob :: address
  aliceIdentifier :: string
  bobIdentifier :: string
  nonce :: int
  assetIds :: "address list"
  balances :: "balance list"
  processedDepositsA :: "int list"
  processedDepositsB :: "int list"
  defundNonces :: "string list"
  merkleRoot :: string
  timeout :: string
  latestUpdate :: channelUpdate
  inDispute :: bool

record fullChannelState = coreChannelState +
  networkContext :: networkContext

record fullTransferState =
  transferId :: string
  transferPayload :: string

record updateParams =
  pChannelAddress :: address
  pType :: updateType
  pDetails :: string

text \<open>JavaScript truthiness of an optional string: \<open>undefined\<close> and \<open>""\<close> are falsy.\<close>

definition truthy :: "string option \<Rightarrow> bool" where
  "truthy s = (case s of None \<Rightarrow> False | Some x \<Rightarrow> x \<noteq> [])"

section \<open>Signing a commitment (generateSignedChannelCommitment, unnamed/part_001)\<close>

record iChannelSigner =
  address :: address
  publicIdentifier :: string
  signMessage :: "string \<Rightarrow> string + string"

record signedCommitment =
  core :: coreChannelState
  commitmentAliceSignature :: "string option"
  commitmentBobSignature :: "string option"

text \<open>
  \<open>hashChannelCommitment\<close> comes from a library and is a parameter. The second
  component of the result lists the hashes handed to \<open>signer.signMessage\<close>, in order:
  it is empty exactly when no signature was requested. \<open>Inl\<close> is the error thrown by
  the signer and returned as \<open>Result.fail(e)\<close>.
\<close>

definition generateSignedChannelCommitment ::
  "(coreChannelState \<Rightarrow> string) \<Rightarrow> fullChannelState \<Rightarrow> iChannelSigner
     \<Rightarrow> string option \<Rightarrow> string option \<Rightarrow> (string + signedCommitment) \<times> string list" where
  "generateSignedChannelCommitment hashChannelCommitment newState signer aliceSig bobSig =
     (let coreState = coreChannelState.truncate newState;
          hash = hashChannelCommitment coreState
      in if truthy aliceSig \<and> truthy bobSig then
           (Inr \<lparr>core = coreState, commitmentAliceSignature = aliceSig,
                 commitmentBobSignature = bobSig\<rparr>, [])
         else
           (case signMessage signer hash of
              Inl e \<Rightarrow> (Inl e, [hash])
            | Inr sig \<Rightarrow>
                (let isAlice = (address signer = alice newState)
                 in (Inr \<lparr>core = coreState,
                          commitmentAliceSignature = (if isAlice then Some sig else aliceSig),
                          commitmentBobSignature = (if isAlice then bobSig else Some sig)\<rparr>,
                     [hash]))))"

section \<open>Merging duplicated asset ids (mergeAssetIds, unnamed/part_001)\<close>

text \<open>
  \<open>String.prototype.toLowerCase\<close> on the ASCII range, where asset ids (hexadecimal
  addresses) live; other bytes are left as they are. A letter \<open>A\<close> to \<open>Z\<close> (codes
  65 to 90) becomes the code plus 32, that is, the same byte with bit 5 set.
\<close>

definition lowerChar :: "char \<Rightarrow> char" where
  "lowerChar c =
     (if 65 \<le> (of_char c :: nat) \<and> (of_char c :: nat) \<le> 90 then
        (case c of Char b0 b1 b2 b3 b4 b5 b6 b7 \<Rightarrow> Char b0 b1 b2 b3 b4 True b6 b7)
      else c)"

definition toLowerCase :: "string \<Rightarrow> string" where
  "toLowerCase s = map lowerChar s"

text \<open>
  \<open>prev > curr\<close> on two JavaScript strings compares them lexicographically by code
  unit; a proper prefix is the smaller string.
\<close>

fun jsStringGreater :: "string \<Rightarrow> string \<Rightarrow> bool" where
  "jsStringGreater [] ys = False"
| "jsStringGreater (x # xs) [] = True"
| "jsStringGreater (x # xs) (y # ys) =
     (if (of_char x :: nat) > of_char y then True
      else if (of_char x :: nat) < of_char y then False
      else jsStringGreater xs ys)"

text \<open>
  The five result arrays start empty and are written by index (\<open>assetIds[idx] = ...\<close>).
  Writing past the end of a JavaScript array extends it and leaves holes; a hole, like a
  stored \<open>undefined\<close>, reads as \<open>undefined\<close>, here \<open>None\<close>.
\<close>

definition assignAt :: "'a option list \<Rightarrow> nat \<Rightarrow> 'a option \<Rightarrow> 'a option list" where
  "assignAt xs i v =
     (if i < length xs then xs[i := v] else xs @ replicate (i - length xs) None @ [v])"

record mergedArrays =
  mAssetIds :: "address option list"
  mProcessedDepositsA :: "int option list"
  mProcessedDepositsB :: "int option list"
  mBalances :: "balance option list"
  mDefundNonces :: "string option list"

text \<open>\<open>Array.prototype.reduce\<close> with the index passed to the callback, which may throw.\<close>

fun reduceIdx :: "('b \<Rightarrow> 'a \<Rightarrow> nat \<Rightarrow> 'b outcome) \<Rightarrow> 'a list \<Rightarrow> nat \<Rightarrow> 'b \<Rightarrow> 'b outcome" where
  "reduceIdx f [] i prev = Returned prev"
| "reduceIdx f (current # rest) i prev =
     (case f prev current i of
        Threw m \<Rightarrow> Threw m
      | Returned next \<Rightarrow> reduceIdx f rest (Suc i) next)"

text \<open>
  The closure \<open>unprocessedAsset\<close>; its argument is \<open>channel.assetIds[currIdx]\<close>, which
  is \<open>undefined\<close> when the reduced array is longer than \<open>assetIds\<close>, and then
  \<open>a.toLowerCase()\<close> throws.
\<close>

definition unprocessedAsset ::
  "address \<Rightarrow> address \<Rightarrow> address option list \<Rightarrow> address option \<Rightarrow> bool outcome" where
  "unprocessedAsset asset checkSummed assetIdsAcc a =
     (case a of
        None \<Rightarrow> Threw ''TypeError: Cannot read property toLowerCase of undefined''
      | Some a' \<Rightarrow>
          Returned (toLowerCase a' = toLowerCase asset \<and> Some checkSummed \<notin> set assetIdsAcc))"

definition sumForAsset ::
  "fullChannelState \<Rightarrow> address \<Rightarrow> address \<Rightarrow> address option list \<Rightarrow> int list \<Rightarrow> int outcome" where
  "sumForAsset channel asset checkSummed assetIdsAcc processed =
     reduceIdx
       (\<lambda>prev curr currIdx.
          case unprocessedAsset asset checkSummed assetIdsAcc (at_index (assetIds channel) currIdx) of
            Threw m \<Rightarrow> Threw m
          | Returned u \<Rightarrow> Returned (prev + (if u then curr else 0)))
       processed 0 0"

definition balanceForAsset ::
  "fullChannelState \<Rightarrow> address \<Rightarrow> address \<Rightarrow> address option list \<Rightarrow> balance outcome" where
  "balanceForAsset channel asset checkSummed assetIdsAcc =
     reduceIdx
       (\<lambda>prev curr currIdx.
          case unprocessedAsset asset checkSummed assetIdsAcc (at_index (assetIds channel) currIdx) of
            Threw m \<Rightarrow> Threw m
          | Returned u \<Rightarrow>
              if u then
                (case (at_index (amount prev) 0, at_index (amount curr) 0,
                       at_index (amount prev) 1, at_index (amount curr) 1) of
                   (Some p0, Some c0, Some p1, Some c1) \<Rightarrow>
                     Returned \<lparr>to = to prev, amount = [p0 + c0, p1 + c1]\<rparr>
                 | _ \<Rightarrow> Threw ''invalid BigNumber value'')
              else Returned prev)
       (balances channel) 0 \<lparr>to = [alice channel, bob channel], amount = [0, 0]\<rparr>"

text \<open>
  \<^verbatim>\<open>channel.defundNonces.reduce((prev, curr, currIdx) => {
    return unprocessedAsset(channel.assetIds[currIdx]) && prev > curr ? prev : curr;
  }, "0")\<close>
  The conditional operator binds weaker than \<open>&&\<close>.
\<close>

definition defundNonceForAsset ::
  "fullChannelState \<Rightarrow> address \<Rightarrow> address \<Rightarrow> address option list \<Rightarrow> string outcome" where
  "defundNonceForAsset channel asset checkSummed assetIdsAcc =
     reduceIdx
       (\<lambda>prev curr currIdx.
          case unprocessedAsset asset checkSummed assetIdsAcc (at_index (assetIds channel) currIdx) of
            Threw m \<Rightarrow> Threw m
          | Returned u \<Rightarrow> Returned (if u \<and> jsStringGreater prev curr then prev else curr))
       (defundNonces channel) 0 ''0''"

text \<open>
  The body of the \<open>forEach\<close> callback for the entry \<open>asset\<close> at index \<open>idx\<close>.
  \<open>getAddress\<close> (the checksum of a library) is a parameter; \<open>None\<close> is the exception
  it raises on a string that is not an address.
\<close>

definition mergeStep ::
  "(string \<Rightarrow> address option) \<Rightarrow> fullChannelState \<Rightarrow> mergedArrays \<Rightarrow> nat \<Rightarrow> address
     \<Rightarrow> mergedArrays outcome" where
  "mergeStep getAddress channel acc idx asset =
     (let duplicates =
            filter (\<lambda>(i, a). toLowerCase a = toLowerCase asset \<and> i \<noteq> idx)
                   (zip [0..<length (assetIds channel)] (assetIds channel))
      in case getAddress asset of
           None \<Rightarrow> Threw ''invalid address''
         | Some checkSummed \<Rightarrow>
             if length duplicates = 0 then
               Returned
                 \<lparr>mAssetIds = assignAt (mAssetIds acc) idx (Some checkSummed),
                  mProcessedDepositsA =
                    assignAt (mProcessedDepositsA acc) idx (at_index (processedDepositsA channel) idx),
                  mProcessedDepositsB =
                    assignAt (mProcessedDepositsB acc) idx (at_index (processedDepositsB channel) idx),
                  mBalances = assignAt (mBalances acc) idx (at_index (balances channel) idx),
                  mDefundNonces =
                    assignAt (mDefundNonces acc) idx (at_index (defundNonces channel) idx)\<rparr>
             else
               (case sumForAsset channel asset checkSummed (mAssetIds acc)
                       (processedDepositsA channel) of
                  Threw m \<Rightarrow> Threw m
                | Returned processedAForAsset \<Rightarrow>
               (case sumForAsset channel asset checkSummed (mAssetIds acc)
                       (processedDepositsB channel) of
                  Threw m \<Rightarrow> Threw m
                | Returned processedBForAsset \<Rightarrow>
               (case balanceForAsset channel asset checkSummed (mAssetIds acc) of
                  Threw m \<Rightarrow> Threw m
                | Returned balanceFor \<Rightarrow>
               (case defundNonceForAsset channel asset checkSummed (mAssetIds acc) of
                  Threw m \<Rightarrow> Threw m
                | Returned defundNonceFor \<Rightarrow>
               (case unprocessedAsset asset checkSummed (mAssetIds acc) (Some asset) of
                  Threw m \<Rightarrow> Threw m
                | Returned u \<Rightarrow>
                    if \<not> u then Returned acc
                    else
                      Returned
                        \<lparr>mAssetIds = assignAt (mAssetIds acc) idx (Some checkSummed),
                         mProcessedDepositsA =
                           assignAt (mProcessedDepositsA acc) idx (Some processedAForAsset),
                         mProcessedDepositsB =
                           assignAt (mProcessedDepositsB acc) idx (Some processedBForAsset),
                         mBalances = assignAt (mBalances acc) idx (Some balanceFor),
                         mDefundNonces =
                           assignAt (mDefundNonces acc) idx (Some defundNonceFor)\<rparr>))))))"

fun forEachAsset ::
  "(string \<Rightarrow> address option) \<Rightarrow> fullChannelState \<Rightarrow> address list \<Rightarrow> nat \<Rightarrow> mergedArrays
     \<Rightarrow> mergedArrays outcome" where
  "forEachAsset getAddress channel [] idx acc = Returned acc"
| "forEachAsset getAddress channel (asset # rest) idx acc =
     (case mergeStep getAddress channel acc idx asset of
        Threw m \<Rightarrow> Threw m
      | Returned acc' \<Rightarrow> forEachAsset getAddress channel rest (Suc idx) acc')"

text \<open>
  The result of \<open>mergeAssetIds\<close> is \<open>{ ...channel, assetIds, processedDepositsA,
  processedDepositsB, balances, defundNonces }\<close>: every other field is the input's, so
  the model returns the five rebuilt arrays.
\<close>

definition mergeAssetIds ::
  "(string \<Rightarrow> address option) \<Rightarrow> fullChannelState \<Rightarrow> mergedArrays outcome" where
  "mergeAssetIds getAddress channel =
     forEachAsset getAddress channel (assetIds channel) 0
       \<lparr>mAssetIds = [], mProcessedDepositsA = [], mProcessedDepositsB = [], mBalances = [],
        mDefundNonces = []\<rparr>"

section \<open>Update engine: errors, services and effects (unnamed/part_001)\<close>

text \<open>
  Modelled from the spec: the tables \<open>InboundChannelUpdateError.reasons\<close>,
  \<open>OutboundChannelUpdateError.reasons\<close> and \<open>MessagingError.reasons\<close> are declared in
  a module that is not part of the sources at hand. Every key the engine reads is a
  constructor; \<open>Inbound_CannotSyncSingleSigned\<close> is the reason the specification lists
  for a single-signed sync. \<open>Text\<close> is a message that is not taken from a table: a
  string literal of the engine or the message of an exception. The keys are taken to
  name pairwise different strings, none of them a literal of the engine.
\<close>

datatype message =
    Inbound_StoreFailure | Inbound_StaleUpdate | Inbound_RestoreNeeded | Inbound_StaleChannel
  | Inbound_SyncFailure | Inbound_CannotSyncSetup | Inbound_SaveChannelFailed
  | Inbound_CannotSyncSingleSigned
  | Outbound_StoreFailure | Outbound_NoUpdateToSync | Outbound_RestoreNeeded
  | Outbound_SyncFailure | Outbound_CannotSyncSetup | Outbound_RegenerateUpdateFailed
  | Outbound_CounterpartyOffline | Outbound_CounterpartyFailure | Outbound_BadSignatures
  | Outbound_SaveChannelFailed
  | Messaging_Timeout
  | Text string

text \<open>
  The free-form context object of an error, as a list of keys and values. A nested
  error (\<open>jsonifyError(e)\<close>) or context is kept as its message.
\<close>

datatype ctxValue =
    CtxMessage message | CtxText string | CtxNumber int | CtxUpdate "channelUpdate option"

text \<open>
  \<open>new InboundChannelUpdateError(reason, update, state, context)\<close> and
  \<open>new OutboundChannelUpdateError(reason, params, state, context)\<close>; the engine reads
  back \<open>error.message\<close>, \<open>error.context.update\<close>, \<open>error.context.state\<close> and
  \<open>error.context\<close>.
\<close>

record inboundChannelUpdateError =
  inMessage :: message
  inUpdate :: "channelUpdate option"
  inState :: "fullChannelState option"
  inContext :: "(string \<times> ctxValue) list"

record outboundChannelUpdateError =
  outMessage :: message
  outParams :: updateParams
  outState :: "fullChannelState option"
  outContext :: "(string \<times> ctxValue) list"

text \<open>The values of \<open>validateAndApplyInboundUpdate\<close> and \<open>validateParamsAndApplyUpdate\<close>.\<close>

record inboundApplied =
  inUpdatedChannel :: fullChannelState
  inUpdatedActiveTransfers :: "fullTransferState list"
  inUpdatedTransfer :: "fullTransferState option"

record outboundApplied =
  outUpdate :: channelUpdate
  outUpdatedChannel :: fullChannelState
  outUpdatedTransfer :: "fullTransferState option"
  outUpdatedActiveTransfers :: "fullTransferState list"

text \<open>The value of a successful \<open>outbound\<close>.\<close>

record outboundResult =
  updatedChannel :: fullChannelState
  updatedTransfers :: "fullTransferState list"
  updatedTransfer :: "fullTransferState option"

text \<open>What \<open>messagingService\<close> delivered to the peer in answer to an inbound message.\<close>

datatype response =
    ProtocolErrorResponse string inboundChannelUpdateError
  | ProtocolMessageResponse string channelUpdate "channelUpdate option"

text \<open>
  The effects of the engine: the channels held by the store, every call of
  \<open>saveChannelState\<close>, every protocol message sent with \<open>sendProtocolMessage\<close> and
  every response given to the peer, each in order.
\<close>

record world =
  channels :: "address \<Rightarrow> fullChannelState option"
  saveCalls :: "(fullChannelState \<times> fullTransferState option) list"
  sentMessages :: "(channelUpdate \<times> channelUpdate option) list"
  responses :: "response list"

text \<open>
  The collaborators of the engine. The store may throw on any call; the peer answers a
  protocol message knowing all messages sent so far, the last one being the one it
  answers. The two validation functions live in a module that is not part of the sources
  at hand and are parameters here; they receive neither the store nor the messaging
  service, so they cannot save or send. \<open>validateChannelSignatures\<close> forwards to a
  library and yields the message of the failure, if any. The validation functions and
  the two responding calls of the messaging service are taken not to throw.
\<close>

record services =
  getChannelStateError :: "address \<Rightarrow> string option"
  getActiveTransfers :: "address \<Rightarrow> string + fullTransferState list"
  saveChannelStateError :: "world \<Rightarrow> fullChannelState \<Rightarrow> fullTransferState option \<Rightarrow> string option"
  counterpartyReply ::
    "(channelUpdate \<times> channelUpdate option) list
       \<Rightarrow> inboundChannelUpdateError + channelUpdate \<times> channelUpdate option"
  validateParamsAndApplyUpdate ::
    "updateParams \<Rightarrow> fullChannelState option \<Rightarrow> fullTransferState list
       \<Rightarrow> outboundChannelUpdateError + outboundApplied"
  validateAndApplyInboundUpdate ::
    "channelUpdate \<Rightarrow> fullChannelState option \<Rightarrow> fullTransferState list
       \<Rightarrow> inboundChannelUpdateError + inboundApplied"
  validateChannelSignatures ::
    "fullChannelState \<Rightarrow> string option \<Rightarrow> string option \<Rightarrow> string option"

definition extractContextFromStore ::
  "services \<Rightarrow> world \<Rightarrow> address \<Rightarrow> string + fullTransferState list \<times> fullChannelState option" where
  "extractContextFromStore sv w addr =
     (case getChannelStateError sv addr of
        Some m \<Rightarrow> Inl (''getChannelState failed: '' @ m)
      | None \<Rightarrow>
          (case getActiveTransfers sv addr of
             Inl m \<Rightarrow> Inl (''getActiveTransfers failed: '' @ m)
           | Inr activeTransfers \<Rightarrow> Inr (activeTransfers, channels w addr)))"

text \<open>
  \<open>storeService.saveChannelState(channel, transfer)\<close>: the call is recorded; it either
  throws (\<open>Some m\<close>) and stores nothing, or stores the channel under its address.
\<close>

definition saveChannelState ::
  "services \<Rightarrow> world \<Rightarrow> fullChannelState \<Rightarrow> fullTransferState option \<Rightarrow> string option \<times> world" where
  "saveChannelState sv w channel transfer =
     (let w1 = w\<lparr>saveCalls := saveCalls w @ [(channel, transfer)]\<rparr>
      in case saveChannelStateError sv w channel transfer of
           Some m \<Rightarrow> (Some m, w1)
         | None \<Rightarrow> (None, w1\<lparr>channels := (channels w1)(channelAddress channel := Some channel)\<rparr>))"

definition sendProtocolMessage ::
  "services \<Rightarrow> world \<Rightarrow> channelUpdate \<Rightarrow> channelUpdate option
     \<Rightarrow> (inboundChannelUpdateError + channelUpdate \<times> channelUpdate option) \<times> world" where
  "sendProtocolMessage sv w update previousUpdate =
     (let w1 = w\<lparr>sentMessages := sentMessages w @ [(update, previousUpdate)]\<rparr>
      in (counterpartyReply sv (sentMessages w1), w1))"

text \<open>\<open>previousState?.nonce ?? 0\<close>\<close>

definition nonceOrZero :: "fullChannelState option \<Rightarrow> int" where
  "nonceOrZero previousState = (case previousState of None \<Rightarrow> 0 | Some c \<Rightarrow> nonce c)"

section \<open>Update engine: syncer, outbound and inbound (unnamed/part_001)\<close>

text \<open>
  \<open>syncState\<close>. The caller passes \<open>previousState!\<close>, which is \<open>undefined\<close> when the
  store holds no channel, so the state is optional. \<open>handleError\<close> builds the caller's
  error from a message; the result \<open>Inl\<close> is the \<open>Result.fail\<close> it returns.
\<close>

definition syncState ::
  "channelUpdate \<Rightarrow> fullChannelState option \<Rightarrow> fullTransferState list \<Rightarrow> (message \<Rightarrow> 'e)
     \<Rightarrow> services \<Rightarrow> world \<Rightarrow> ('e + inboundApplied) \<times> world" where
  "syncState toSync previousState activeTransfers handleError sv w =
     (if uType toSync = Setup then (Inl (handleError Inbound_CannotSyncSetup), w)
      else if \<not> truthy (aliceSignature toSync) \<or> \<not> truthy (bobSignature toSync) then
        (Inl (handleError (Text ''Cannot sync single signed state'')), w)
      else
        (case validateAndApplyInboundUpdate sv toSync previousState activeTransfers of
           Inl e \<Rightarrow> (Inl (handleError (inMessage e)), w)
         | Inr applied \<Rightarrow>
             (case saveChannelState sv w (inUpdatedChannel applied) (inUpdatedTransfer applied) of
                (Some m, w1) \<Rightarrow> (Inl (handleError (Text m)), w1)
              | (None, w1) \<Rightarrow> (Inr applied, w1))))"

text \<open>The \<open>handleError\<close> closures that \<open>syncStateAndRecreateUpdate\<close> and \<open>inbound\<close> pass.\<close>

definition outboundSyncError ::
  "updateParams \<Rightarrow> fullChannelState option \<Rightarrow> message \<Rightarrow> outboundChannelUpdateError" where
  "outboundSyncError attemptedParams previousState m =
     \<lparr>outMessage = (if m \<noteq> Inbound_CannotSyncSetup then Outbound_SyncFailure
                     else Outbound_CannotSyncSetup),
      outParams = attemptedParams, outState = previousState,
      outContext = [(''syncError'', CtxMessage m)]\<rparr>"

definition inboundSyncError ::
  "channelUpdate \<Rightarrow> fullChannelState option \<Rightarrow> message \<Rightarrow> inboundChannelUpdateError" where
  "inboundSyncError previousUpdate previousState m =
     \<lparr>inMessage = (if m \<noteq> Inbound_CannotSyncSetup then Inbound_SyncFailure
                    else Inbound_CannotSyncSetup),
      inUpdate = Some previousUpdate, inState = previousState,
      inContext = [(''syncError'', CtxMessage m)]\<rparr>"

text \<open>
  \<open>syncStateAndRecreateUpdate\<close> yields the regenerated update together with the synced
  channel. Building the \<open>RestoreNeeded\<close> error reads \<open>previousState.nonce\<close> without a
  guard, which throws when there is no previous state.
\<close>

definition syncStateAndRecreateUpdate ::
  "inboundChannelUpdateError \<Rightarrow> updateParams \<Rightarrow> fullChannelState option
     \<Rightarrow> fullTransferState list \<Rightarrow> services \<Rightarrow> world
     \<Rightarrow> (outboundChannelUpdateError + outboundApplied \<times> fullChannelState) outcome \<times> world" where
  "syncStateAndRecreateUpdate receivedError attemptedParams previousState activeTransfers sv w =
     (case inUpdate receivedError of
        None \<Rightarrow>
          (Returned (Inl \<lparr>outMessage = Outbound_NoUpdateToSync, outParams = attemptedParams,
                          outState = previousState,
                          outContext = [(''receivedError'', CtxMessage (inMessage receivedError))]\<rparr>),
           w)
      | Some counterpartyUpdate \<Rightarrow>
          (let diff = uNonce counterpartyUpdate - nonceOrZero previousState
           in if diff \<noteq> 1 then
                (case previousState of
                   None \<Rightarrow> (Threw ''TypeError: Cannot read property nonce of undefined'', w)
                 | Some p \<Rightarrow>
                     (Returned (Inl \<lparr>outMessage = Outbound_RestoreNeeded,
                                     outParams = attemptedParams, outState = previousState,
                                     outContext =
                                       [(''counterpartyUpdate'', CtxUpdate (Some counterpartyUpdate)),
                                        (''latestNonce'', CtxNumber (nonce p))]\<rparr>), w))
              else
                (case syncState counterpartyUpdate previousState activeTransfers
                        (outboundSyncError attemptedParams previousState) sv w of
                   (Inl e, w1) \<Rightarrow> (Returned (Inl e), w1)
                 | (Inr synced, w1) \<Rightarrow>
                     (case validateParamsAndApplyUpdate sv attemptedParams
                             (Some (inUpdatedChannel synced)) (inUpdatedActiveTransfers synced) of
                        Inl e \<Rightarrow>
                          (Returned (Inl \<lparr>outMessage = Outbound_RegenerateUpdateFailed,
                                          outParams = attemptedParams,
                                          outState = Some (inUpdatedChannel synced),
                                          outContext =
                                            [(''regenerateUpdateError'', CtxMessage (outMessage e))]\<rparr>),
                           w1)
                      | Inr regenerated \<Rightarrow>
                          (Returned (Inr (regenerated, inUpdatedChannel synced)), w1)))))"

text \<open>
  \<open>outbound\<close> after the (possibly retried) round trip, from \<open>if (error)\<close> on: the
  variables \<open>counterpartyResult\<close>, \<open>previousState\<close>, \<open>updatedChannel\<close>,
  \<open>updatedTransfer\<close> and \<open>updatedActiveTransfers\<close> hold either the first attempt's
  values or the values assigned after the sync.
\<close>

definition outboundFinish ::
  "services \<Rightarrow> world \<Rightarrow> updateParams
     \<Rightarrow> (inboundChannelUpdateError + channelUpdate \<times> channelUpdate option)
     \<Rightarrow> fullChannelState option \<Rightarrow> outboundApplied
     \<Rightarrow> (outboundChannelUpdateError + outboundResult) outcome \<times> world" where
  "outboundFinish sv w params counterpartyResult previousState applied =
     (case counterpartyResult of
        Inl error \<Rightarrow>
          (Returned (Inl \<lparr>outMessage = (if inMessage error = Messaging_Timeout
                                         then Outbound_CounterpartyOffline
                                         else Outbound_CounterpartyFailure),
                          outParams = params, outState = previousState,
                          outContext = [(''counterpartyError'', CtxMessage (inMessage error))]\<rparr>), w)
      | Inr (counterpartyUpdate, counterpartyPrevious) \<Rightarrow>
          (case validateChannelSignatures sv (outUpdatedChannel applied)
                  (aliceSignature counterpartyUpdate) (bobSignature counterpartyUpdate) of
             Some m \<Rightarrow>
               (Returned (Inl \<lparr>outMessage = Outbound_BadSignatures, outParams = params,
                               outState = previousState,
                               outContext = [(''recoveryError'', CtxText m)]\<rparr>), w)
           | None \<Rightarrow>
               (let saved = (outUpdatedChannel applied)\<lparr>latestUpdate := counterpartyUpdate\<rparr>
                in case saveChannelState sv w saved (outUpdatedTransfer applied) of
                     (Some m, w1) \<Rightarrow>
                       (Returned (Inl \<lparr>outMessage = Outbound_SaveChannelFailed, outParams = params,
                                       outState = Some saved,
                                       outContext = [(''saveChannelError'', CtxText m)]\<rparr>), w1)
                   | (None, w1) \<Rightarrow>
                       (Returned (Inr \<lparr>updatedChannel = saved,
                                       updatedTransfers = outUpdatedActiveTransfers applied,
                                       updatedTransfer = outUpdatedTransfer applied\<rparr>), w1))))"

definition outbound ::
  "updateParams \<Rightarrow> services \<Rightarrow> world
     \<Rightarrow> (outboundChannelUpdateError + outboundResult) outcome \<times> world" where
  "outbound params sv w =
     (case extractContextFromStore sv w (pChannelAddress params) of
        Inl m \<Rightarrow>
          (Returned (Inl \<lparr>outMessage = Outbound_StoreFailure, outParams = params, outState = None,
                          outContext = [(''storeError'', CtxText m), (''method'', CtxText ''outbound'')]\<rparr>),
           w)
      | Inr (activeTransfers, previousState) \<Rightarrow>
          (case validateParamsAndApplyUpdate sv params previousState activeTransfers of
             Inl e \<Rightarrow> (Returned (Inl e), w)
           | Inr applied \<Rightarrow>
               (case sendProtocolMessage sv w (outUpdate applied)
                       (map_option latestUpdate previousState) of
                  (Inl error, w1) \<Rightarrow>
                    if inMessage error = Inbound_StaleUpdate then
                      (case syncStateAndRecreateUpdate error params previousState activeTransfers
                              sv w1 of
                         (Threw m, w2) \<Rightarrow> (Threw m, w2)
                       | (Returned (Inl e), w2) \<Rightarrow> (Returned (Inl e), w2)
                       | (Returned (Inr (regenerated, syncedChannel)), w2) \<Rightarrow>
                           (case sendProtocolMessage sv w2 (outUpdate regenerated)
                                   (Some (latestUpdate (outUpdatedChannel regenerated))) of
                              (counterpartyResult, w3) \<Rightarrow>
                                outboundFinish sv w3 params counterpartyResult (Some syncedChannel)
                                  regenerated))
                    else outboundFinish sv w1 params (Inl error) previousState applied
                | (Inr reply, w1) \<Rightarrow> outboundFinish sv w1 params (Inr reply) previousState applied)))"

text \<open>
  The helper \<open>returnError\<close> of \<open>inbound\<close>: its parameter \<open>prevUpdate\<close> defaults to the
  received update when the argument is \<open>undefined\<close>; it answers the peer with the error
  and returns it.
\<close>

definition returnError ::
  "channelUpdate \<Rightarrow> string \<Rightarrow> message \<Rightarrow> channelUpdate option \<Rightarrow> fullChannelState option
     \<Rightarrow> (string \<times> ctxValue) list \<Rightarrow> world
     \<Rightarrow> (inboundChannelUpdateError + inboundApplied) outcome \<times> world" where
  "returnError update inbox reason prevUpdate state ctx w =
     (let error = \<lparr>inMessage = reason,
                   inUpdate = Some (case prevUpdate of None \<Rightarrow> update | Some u \<Rightarrow> u),
                   inState = state, inContext = ctx\<rparr>
      in (Returned (Inl error), w\<lparr>responses := responses w @ [ProtocolErrorResponse inbox error]\<rparr>))"

text \<open>\<open>inbound\<close> from the call of \<open>validateAndApplyInboundUpdate\<close> on.\<close>

definition inboundApply ::
  "channelUpdate \<Rightarrow> string \<Rightarrow> fullChannelState option \<Rightarrow> fullTransferState list \<Rightarrow> services
     \<Rightarrow> world \<Rightarrow> (inboundChannelUpdateError + inboundApplied) outcome \<times> world" where
  "inboundApply update inbox previousState activeTransfers sv w =
     (case validateAndApplyInboundUpdate sv update previousState activeTransfers of
        Inl e \<Rightarrow> returnError update inbox (inMessage e) (Some update) previousState (inContext e) w
      | Inr applied \<Rightarrow>
          (case saveChannelState sv w (inUpdatedChannel applied) (inUpdatedTransfer applied) of
             (Some m, w1) \<Rightarrow>
               returnError update inbox Inbound_SaveChannelFailed (Some update) previousState
                 [(''saveChannelError'', CtxText m)] w1
           | (None, w1) \<Rightarrow>
               (Returned (Inr applied),
                w1\<lparr>responses := responses w1 @
                      [ProtocolMessageResponse inbox (latestUpdate (inUpdatedChannel applied))
                         (map_option latestUpdate previousState)]\<rparr>)))"

text \<open>
  \<open>inbound\<close>. In the stale branch the argument \<open>channelFromStore!.latestUpdate\<close> is
  evaluated before \<open>returnError\<close> is called, and throws when the store holds no channel.
\<close>

definition inbound ::
  "channelUpdate \<Rightarrow> channelUpdate option \<Rightarrow> string \<Rightarrow> services \<Rightarrow> world
     \<Rightarrow> (inboundChannelUpdateError + inboundApplied) outcome \<times> world" where
  "inbound update previousUpdate inbox sv w =
     (case extractContextFromStore sv w (uChannelAddress update) of
        Inl m \<Rightarrow>
          returnError update inbox Inbound_StoreFailure None None [(''storeError'', CtxText m)] w
      | Inr (activeTransfers, channelFromStore) \<Rightarrow>
          (let prevNonce = nonceOrZero channelFromStore;
               diff = uNonce update - prevNonce
           in if diff \<le> 0 then
                (case channelFromStore of
                   None \<Rightarrow> (Threw ''TypeError: Cannot read property latestUpdate of undefined'', w)
                 | Some c \<Rightarrow>
                     returnError update inbox Inbound_StaleUpdate (Some (latestUpdate c))
                       channelFromStore [] w)
              else if diff \<ge> 3 then
                returnError update inbox Inbound_RestoreNeeded (Some update) channelFromStore
                  [(''counterpartyLatestUpdate'', CtxUpdate previousUpdate),
                   (''ourLatestNonce'', CtxNumber prevNonce)] w
              else if diff = 2 then
                (case previousUpdate of
                   None \<Rightarrow>
                     returnError update inbox Inbound_StaleChannel previousUpdate channelFromStore [] w
                 | Some peerPrevious \<Rightarrow>
                     (case syncState peerPrevious channelFromStore activeTransfers
                             (inboundSyncError peerPrevious channelFromStore) sv w of
                        (Inl error, w1) \<Rightarrow>
                          returnError update inbox (inMessage error) (inUpdate error)
                            (inState error) (inContext error) w1
                      | (Inr synced, w1) \<Rightarrow>
                          inboundApply update inbox (Some (inUpdatedChannel synced))
                            (inUpdatedActiveTransfers synced) sv w1))
              else inboundApply update inbox channelFromStore activeTransfers sv w))"

section \<open>Validation, from the specification\<close>

text \<open>
  Modelled from the spec: \<open>validateAndApplyInboundUpdate\<close> is defined in the
  validation module, which is not part of the sources at hand. By the specification an
  update carries the nonce the state has after applying it, the nonce of an update is
  checked against the nonce of the state it is applied on (0 without a channel) plus 1,
  and each update type has its own further checks and its own derived state. The error
  of the nonce check is the parameter \<open>nonceError\<close>, the further checks are the
  parameter \<open>rejects\<close>, the derived state is the parameter \<open>derive\<close>, and the next
  state has the nonce of the update.
\<close>

definition specValidateAndApplyInboundUpdate ::
  "(channelUpdate \<Rightarrow> fullChannelState option \<Rightarrow> inboundChannelUpdateError)
     \<Rightarrow> (channelUpdate \<Rightarrow> fullChannelState option \<Rightarrow> fullTransferState list
           \<Rightarrow> inboundChannelUpdateError option)
     \<Rightarrow> (channelUpdate \<Rightarrow> fullChannelState option \<Rightarrow> fullTransferState list \<Rightarrow> inboundApplied)
     \<Rightarrow> channelUpdate \<Rightarrow> fullChannelState option \<Rightarrow> fullTransferState list
     \<Rightarrow> inboundChannelUpdateError + inboundApplied" where
  "specValidateAndApplyInboundUpdate nonceError rejects derive update previousState
       activeTransfers =
     (if uNonce update \<noteq> nonceOrZero previousState + 1 then
        Inl (nonceError update previousState)
      else
        (case rejects update previousState activeTransfers of
           Some e \<Rightarrow> Inl e
         | None \<Rightarrow>
             (let derived = derive update previousState activeTransfers
              in Inr (derived\<lparr>inUpdatedChannel :=
                                 (inUpdatedChannel derived)\<lparr>nonce := uNonce update\<rparr>\<rparr>))))"

text \<open>
  Modelled from the spec: \<open>validateParamsAndApplyUpdate\<close> is defined in the same
  module. It receives no update but the parameters of one and produces the update: by the
  specification the update it produces has the nonce of the previous state (0 without a
  channel) plus 1, and the next state has the nonce of the update. The checks and the
  rest of the update and of the state are parameters.
\<close>

definition specValidateParamsAndApplyUpdate ::
  "(updateParams \<Rightarrow> fullChannelState option \<Rightarrow> fullTransferState list
      \<Rightarrow> outboundChannelUpdateError option)
     \<Rightarrow> (updateParams \<Rightarrow> fullChannelState option \<Rightarrow> fullTransferState list \<Rightarrow> outboundApplied)
     \<Rightarrow> updateParams \<Rightarrow> fullChannelState option \<Rightarrow> fullTransferState list
     \<Rightarrow> outboundChannelUpdateError + outboundApplied" where
  "specValidateParamsAndApplyUpdate rejects derive params previousState activeTransfers =
     (case rejects params previousState activeTransfers of
        Some e \<Rightarrow> Inl e
      | None \<Rightarrow>
          (let derived = derive params previousState activeTransfers;
               update = (outUpdate derived)\<lparr>uNonce := nonceOrZero previousState + 1\<rparr>
           in Inr (derived\<lparr>outUpdate := update,
                           outUpdatedChannel :=
                             (outUpdatedChannel derived)\<lparr>nonce := uNonce update\<rparr>\<rparr>)))"

section \<open>Sending transactions with retries (modules/contracts/src.ts/services/ethService.ts)\<close>

text \<open>
  The \<open>k\<close>-th call of \<open>txFn\<close> either throws an error object (\<open>Inl\<close>), returns
  \<open>undefined\<close> because no transaction had to be sent (\<open>Inr None\<close>), or returns a
  response, kept as its hash. \<open>saveTransactionResponse\<close> of the store may throw as well.
  \<open>notEnoughFunds\<close> is the \<open>ChainError\<close> the class builds for the reason
  \<open>NotEnoughFunds\<close>; the class is declared outside the sources at hand.
\<close>

record txEnv =
  txFn :: "nat \<Rightarrow> chainError + string option"
  saveTransactionResponseError :: "nat \<Rightarrow> chainError option"
  notEnoughFunds :: chainError

fun startsWith :: "string \<Rightarrow> string \<Rightarrow> bool" where
  "startsWith s [] = True"
| "startsWith [] (c # cs) = False"
| "startsWith (x # xs) (c # cs) = (x = c \<and> startsWith xs cs)"

text \<open>\<open>String.prototype.includes\<close>\<close>

fun includesStr :: "string \<Rightarrow> string \<Rightarrow> bool" where
  "includesStr [] sub = (sub = [])"
| "includesStr (x # xs) sub = (startsWith (x # xs) sub \<or> includesStr xs sub)"

text \<open>
  \<open>sendTxAndParseResponse\<close>, reduced to its result: whatever is thrown while the
  transaction is submitted and saved is caught and returned as \<open>Result.fail\<close>, replaced
  by the \<open>NotEnoughFunds\<close> error when its message says so. The callbacks registered on
  the response run later and do not change the result.
\<close>

definition sendTxAndParseResponse :: "txEnv \<Rightarrow> nat \<Rightarrow> chainError + string option" where
  "sendTxAndParseResponse env k =
     (let caught = (\<lambda>e. if includesStr (chainMessage e) ''sender doesn't have enough funds''
                         then notEnoughFunds env else e)
      in case txFn env k of
           Inl e \<Rightarrow> Inl (caught e)
         | Inr None \<Rightarrow> Inr None
         | Inr (Some response) \<Rightarrow>
             (case saveTransactionResponseError env k of
                Some e \<Rightarrow> Inl (caught e)
              | None \<Rightarrow> Inr (Some response)))"

text \<open>
  The loop of \<open>sendTxWithRetries\<close>:
  \<^verbatim>\<open>for (let attempt = 1; attempt++; attempt < this.defaultRetries) { ... }\<close>
  The condition of the loop is \<open>attempt++\<close>, whose value is \<open>attempt\<close> before the
  increment and which is truthy unless that value is 0; the third expression,
  \<open>attempt < this.defaultRetries\<close>, is evaluated after each round and discarded. The
  state is the counter \<open>attempt\<close>, the errors collected and the number of calls of
  \<open>txFn\<close> made so far. A loop that never leaves is the value \<open>None\<close>.
\<close>

partial_function (option) sendTxLoop ::
  "txEnv \<Rightarrow> int \<Rightarrow> int \<times> chainError list \<times> nat \<Rightarrow> ((chainError + string option) \<times> nat) option" where
  "sendTxLoop env defaultRetries st =
     (case st of (attempt, errs, k) \<Rightarrow>
        if attempt \<noteq> 0 then
          (case sendTxAndParseResponse env k of
             Inr response \<Rightarrow> Some (Inr response, Suc k)
           | Inl error \<Rightarrow>
               if \<not> canRetry error then Some (Inl error, Suc k)
               else sendTxLoop env defaultRetries (attempt + 1, errs @ [error], Suc k))
        else
          Some (Inl (ChainError ''FailedToSendTx'' (map chainMessage errs) False), k))"

definition sendTxWithRetries ::
  "txEnv \<Rightarrow> int \<Rightarrow> nat \<Rightarrow> ((chainError + string option) \<times> nat) option" where
  "sendTxWithRetries env defaultRetries k = sendTxLoop env defaultRetries (1, [], k)"

section \<open>Concrete inputs\<close>

text \<open>A chain reader that answers every call with fixed totals.\<close>

definition fixedReader :: "int \<Rightarrow> int \<Rightarrow> unit iVectorChainReader" where
  "fixedReader a b =
     \<lparr>readTotalDepositedA = (\<lambda>_ _ _ s. (Inr a, s)),
      readTotalDepositedB = (\<lambda>_ _ _ s. (Inr b, s))\<rparr>"

text \<open>
  A chain on which no channel contract is deployed: the first call of \<open>getCode\<close> times
  out, every later one finds no code; the channel address holds 42 of the native asset.
\<close>

definition undeployedProvider :: provider where
  "undeployedProvider =
     \<lparr>rpc_getCode = (\<lambda>t a. if t = 0 then Inl ''timeout'' else Inr ''0x''),
      rpc_getBalance = (\<lambda>t a. Inr 42),
      rpc_balanceOf = (\<lambda>t asset a. Inr 0),
      rpc_getTotalDepositsAlice = (\<lambda>t c a. Inl ''call exception''),
      rpc_getTotalDepositsBob = (\<lambda>t c a. Inl ''call exception'')\<rparr>"

definition undeployedReader :: ethereumChainReader where
  "undeployedReader =
     \<lparr>chainProviders = (\<lambda>c. if c = 1337 then Some undeployedProvider else None)\<rparr>"

text \<open>An update, a channel at a given nonce, and stores holding nothing or that channel.\<close>

definition sampleUpdate ::
  "updateType \<Rightarrow> int \<Rightarrow> string option \<Rightarrow> string option \<Rightarrow> channelUpdate" where
  "sampleUpdate ty n sigA sigB =
     \<lparr>uChannelAddress = ''0xC'', fromIdentifier = ''vectorB'', toIdentifier = ''vectorA'',
      uType = ty, uNonce = n, uBalance = \<lparr>to = [''0xA'', ''0xB''], amount = [0, 0]\<rparr>,
      uAssetId = AddressZero, details = ''{}'', aliceSignature = sigA, bobSignature = sigB\<rparr>"

definition sampleChannel :: "int \<Rightarrow> fullChannelState" where
  "sampleChannel n =
     \<lparr>channelAddress = ''0xC'', alice = ''0xA'', bob = ''0xB'',
      aliceIdentifier = ''vectorA'', bobIdentifier = ''vectorB'', nonce = n,
      assetIds = [], balances = [], processedDepositsA = [], processedDepositsB = [],
      defundNonces = [], merkleRoot = ''0x0'', timeout = ''3600'',
      latestUpdate = sampleUpdate Deposit n (Some ''sigA'') (Some ''sigB''), inDispute = False,
      networkContext = \<lparr>chainId = 1337, channelFactoryAddress = ''0xF'',
                         transferRegistryAddress = ''0xR''\<rparr>\<rparr>"

definition emptyWorld :: world where
  "emptyWorld = \<lparr>channels = (\<lambda>a. None), saveCalls = [], sentMessages = [], responses = []\<rparr>"

definition worldAt :: "int \<Rightarrow> world" where
  "worldAt n =
     emptyWorld\<lparr>channels := (\<lambda>a. if a = ''0xC'' then Some (sampleChannel n) else None)\<rparr>"

definition sampleParams :: "updateType \<Rightarrow> updateParams" where
  "sampleParams ty = \<lparr>pChannelAddress = ''0xC'', pType = ty, pDetails = ''{}''\<rparr>"

text \<open>
  A peer that answers the first message with \<open>StaleUpdate\<close>, carrying its double-signed
  latest update at nonce \<open>n\<close>, and lets the second message time out.
\<close>

definition staleThenTimeout ::
  "int \<Rightarrow> (channelUpdate \<times> channelUpdate option) list
     \<Rightarrow> inboundChannelUpdateError + channelUpdate \<times> channelUpdate option" where
  "staleThenTimeout n msgs =
     (if length msgs \<le> 1 then
        Inl \<lparr>inMessage = Inbound_StaleUpdate,
             inUpdate = Some (sampleUpdate Deposit n (Some ''sigA'') (Some ''sigB'')),
             inState = None, inContext = []\<rparr>
      else Inl \<lparr>inMessage = Messaging_Timeout, inUpdate = None, inState = None, inContext = []\<rparr>)"

text \<open>
  The parameters of a validation that accepts everything that passes the nonce check.
\<close>

definition nonceErrorFixture :: "channelUpdate \<Rightarrow> fullChannelState option \<Rightarrow> inboundChannelUpdateError" where
  "nonceErrorFixture u prev =
     \<lparr>inMessage = Text ''Update nonce must be previousState.nonce + 1'', inUpdate = Some u,
      inState = prev, inContext = []\<rparr>"

definition deriveInboundFixture ::
  "channelUpdate \<Rightarrow> fullChannelState option \<Rightarrow> fullTransferState list \<Rightarrow> inboundApplied" where
  "deriveInboundFixture u prev acts =
     \<lparr>inUpdatedChannel = (sampleChannel (uNonce u))\<lparr>latestUpdate := u\<rparr>,
      inUpdatedActiveTransfers = acts, inUpdatedTransfer = None\<rparr>"

definition deriveOutboundFixture ::
  "updateParams \<Rightarrow> fullChannelState option \<Rightarrow> fullTransferState list \<Rightarrow> outboundApplied" where
  "deriveOutboundFixture p prev acts =
     \<lparr>outUpdate = sampleUpdate (pType p) 0 (Some ''sigA'') None,
      outUpdatedChannel = sampleChannel (nonceOrZero prev + 1),
      outUpdatedTransfer = None, outUpdatedActiveTransfers = acts\<rparr>"

text \<open>
  Services whose store never fails and whose validations are the ones of the
  specification with these parameters.
\<close>

definition acceptingServices :: "int \<Rightarrow> services" where
  "acceptingServices n =
     \<lparr>getChannelStateError = (\<lambda>a. None),
      getActiveTransfers = (\<lambda>a. Inr []),
      saveChannelStateError = (\<lambda>w c t. None),
      counterpartyReply = staleThenTimeout n,
      validateParamsAndApplyUpdate =
         specValidateParamsAndApplyUpdate (\<lambda>p prev acts. None) deriveOutboundFixture,
      validateAndApplyInboundUpdate =
         specValidateAndApplyInboundUpdate nonceErrorFixture (\<lambda>u prev acts. None)
           deriveInboundFixture,
      validateChannelSignatures = (\<lambda>c a b. None)\<rparr>"

text \<open>
  A channel that lists one token twice, checksummed and in lower case, followed by the
  native asset. \<open>getAddressFixture\<close> is the checksum on these three strings.
\<close>

definition DAI :: address where
  "DAI = ''0x6B175474E89094C44Da98b954EedeAC495271d0F''"

definition dai :: address where
  "dai = ''0x6b175474e89094c44da98b954eedeac495271d0f''"

definition getAddressFixture :: "string \<Rightarrow> address option" where
  "getAddressFixture a =
     (if a = DAI \<or> a = dai then Some DAI
      else if a = AddressZero then Some AddressZero else None)"

definition dupChannel :: fullChannelState where
  "dupChannel =
     (sampleChannel 4)
       \<lparr>assetIds := [DAI, dai, AddressZero],
        balances := [\<lparr>to = [''0xA'', ''0xB''], amount = [1, 2]\<rparr>,
                     \<lparr>to = [''0xA'', ''0xB''], amount = [3, 4]\<rparr>,
                     \<lparr>to = [''0xA'', ''0xB''], amount = [0, 0]\<rparr>],
        processedDepositsA := [1, 3, 0], processedDepositsB := [2, 4, 0],
        defundNonces := [''2'', ''1'', ''1'']\<rparr>"

text \<open>A signer whose every transaction is refused with an error that may be retried.\<close>

definition alwaysRetryable :: txEnv where
  "alwaysRetryable =
     \<lparr>txFn = (\<lambda>k. Inl (ChainError ''Invalid nonce'' [] True)),
      saveTransactionResponseError = (\<lambda>k. None),
      notEnoughFunds = ChainError ''NotEnoughFunds'' [] False\<rparr>"

text \<open>Bob's signer, and a commitment hash that only looks at the nonce.\<close>

definition bobSigner :: iChannelSigner where
  "bobSigner =
     \<lparr>address = ''0xB'', publicIdentifier = ''vectorB'', signMessage = (\<lambda>h. Inr (''sigB/'' @ h))\<rparr>"

definition hashFixture :: "coreChannelState \<Rightarrow> string" where
  "hashFixture c = (if nonce c = 4 then ''0xh4'' else ''0xh'')"

text \<open>A peer that countersigns whatever it receives, and a validator that refuses.\<close>

definition ackingServices :: services where
  "ackingServices =
     (acceptingServices 0)
       \<lparr>counterpartyReply :=
          (\<lambda>msgs. case last msgs of (u, p) \<Rightarrow> Inr (u\<lparr>bobSignature := Some ''sigB''\<rparr>, p))\<rparr>"

definition rejectingServices :: services where
  "rejectingServices =
     (acceptingServices 0)
       \<lparr>validateParamsAndApplyUpdate :=
          (\<lambda>p prev acts. Inl \<lparr>outMessage = Text ''Transfer definition returned false'',
                                outParams = p, outState = prev, outContext = []\<rparr>)\<rparr>"

text \<open>
  A peer that never answers, a signature check that fails, and a peer that answers the
  first message with \<open>StaleUpdate\<close> at nonce \<open>n\<close> and countersigns the second.
\<close>

definition timeoutServices :: services where
  "timeoutServices =
     (acceptingServices 0)
       \<lparr>counterpartyReply :=
          (\<lambda>msgs. Inl \<lparr>inMessage = Messaging_Timeout, inUpdate = None, inState = None,
                         inContext = []\<rparr>)\<rparr>"

definition badSignatureServices :: services where
  "badSignatureServices =
     ackingServices\<lparr>validateChannelSignatures := (\<lambda>c a b. Some ''Could not recover signers'')\<rparr>"

definition staleThenAckServices :: "int \<Rightarrow> services" where
  "staleThenAckServices n =
     (acceptingServices n)
       \<lparr>counterpartyReply :=
          (\<lambda>msgs. if length msgs \<le> 1 then staleThenTimeout n msgs
                   else (case last msgs of (u, p) \<Rightarrow> Inr (u\<lparr>bobSignature := Some ''sigB''\<rparr>, p)))\<rparr>"

text \<open>A target method instrumented with the number of times it has been called.\<close>

definition counting :: "('s \<Rightarrow> 'r \<times> 's) \<Rightarrow> nat \<times> 's \<Rightarrow> 'r \<times> (nat \<times> 's)" where
  "counting f = (\<lambda>(n, s). case f s of (r, s') \<Rightarrow> (r, (Suc n, s')))"

section \<open>Properties\<close>

lemmas fixture_defs = sampleUpdate_def sampleChannel_def emptyWorld_def worldAt_def
  sampleParams_def staleThenTimeout_def acceptingServices_def nonceErrorFixture_def
  deriveInboundFixture_def deriveOutboundFixture_def specValidateParamsAndApplyUpdate_def
  specValidateAndApplyInboundUpdate_def

subsection \<open>Deposit reconciliation\<close>

text \<open>
  Claim C3. \<open>reconcileDeposit\<close> returns a value exactly when both chain reads
  succeed (and the existing balance has its two amounts), and the value is then the
  balance whose two amounts are the existing amounts plus the on-chain total minus the
  processed deposits, for Alice and for Bob, in exact integer arithmetic, together with
  the two totals read from the chain reader.
\<close>

theorem reconcileDeposit_exact:
  "reconcileDeposit channelAddr chain initialBalance processedDepositA processedDepositB
       assetId chainReader s = (Returned (Inr r), s') \<longleftrightarrow>
   (\<exists>totalA totalB s1 a0 a1.
      readTotalDepositedA chainReader channelAddr chain assetId s = (Inr totalA, s1) \<and>
      readTotalDepositedB chainReader channelAddr chain assetId s1 = (Inr totalB, s') \<and>
      at_index (amount initialBalance) 0 = Some a0 \<and>
      at_index (amount initialBalance) 1 = Some a1 \<and>
      r = \<lparr>rBalance = initialBalance
                 \<lparr>amount := [a0 + (totalA - processedDepositA),
                             a1 + (totalB - processedDepositB)]\<rparr>,
           totalDepositsAlice = totalA, totalDepositsBob = totalB\<rparr>)"
  by (auto simp: reconcileDeposit_def Let_def split: prod.splits sum.splits option.splits)

text \<open>
  Witness for C3: on-chain totals 10 and 5, processed deposits 4 and 1, balance
  \<open>[7, 3]\<close> becomes \<open>[13, 7]\<close>.
\<close>

theorem reconcileDeposit_exact_witness:
  "reconcileDeposit ''0xC'' 1337 \<lparr>to = [''0xA'', ''0xB''], amount = [7, 3]\<rparr> 4 1 AddressZero
     (fixedReader 10 5) () =
   (Returned (Inr \<lparr>rBalance = \<lparr>to = [''0xA'', ''0xB''], amount = [13, 7]\<rparr>,
                    totalDepositsAlice = 10, totalDepositsBob = 5\<rparr>), ())"
  by (simp add: reconcileDeposit_exact fixedReader_def at_index_def)

text \<open>
  On the chain without a deployed channel, with nothing processed for Alice and 2
  processed for Bob, the reconciliation credits the 40 unprocessed units to Bob.
\<close>

lemma reconcileDeposit_undeployed:
  "reconcileDeposit ''0xC'' 1337 \<lparr>to = [''0xA'', ''0xB''], amount = [7, 3]\<rparr> 0 2 AddressZero
     (asChainReader undeployedReader) 0 =
   (Returned (Inr \<lparr>rBalance = \<lparr>to = [''0xA'', ''0xB''], amount = [7, 43]\<rparr>,
                    totalDepositsAlice = 0, totalDepositsBob = 42\<rparr>), 4)"
  by (simp add: reconcileDeposit_def asChainReader_def getTotalDepositedA_def getTotalDepositedB_def
      getCode_def getOnchainBalance_def retryWrapper_def undeployedReader_def undeployedProvider_def
      ETH_READER_MAX_RETRIES_def thrown_def at_index_def)

subsection \<open>Deposits of a channel that is not deployed\<close>





subsection \<open>Signing a commitment\<close>

text \<open>
  Claim C10. With both signatures present, \<open>generateSignedChannelCommitment\<close> returns
  the core state (the state without its \<open>networkContext\<close>) and the two given
  signatures, and asks the signer for nothing. With at most one signature present and a
  signer that signs, the new signature goes into the alice slot exactly when the
  signer's address is the state's \<open>alice\<close>, otherwise into the bob slot, and the other
  slot holds the signature that was passed in.
\<close>

theorem generateSignedChannelCommitment_slots:
  "(truthy aliceSig \<and> truthy bobSig \<longrightarrow>
      generateSignedChannelCommitment hashFn newState signer aliceSig bobSig =
        (Inr \<lparr>core = coreChannelState.truncate newState, commitmentAliceSignature = aliceSig,
              commitmentBobSignature = bobSig\<rparr>, [])) \<and>
   (\<not> (truthy aliceSig \<and> truthy bobSig) \<and>
    signMessage signer (hashFn (coreChannelState.truncate newState)) = Inr sig \<longrightarrow>
      generateSignedChannelCommitment hashFn newState signer aliceSig bobSig =
        (Inr \<lparr>core = coreChannelState.truncate newState,
              commitmentAliceSignature =
                (if address signer = alice newState then Some sig else aliceSig),
              commitmentBobSignature =
                (if address signer = alice newState then bobSig else Some sig)\<rparr>,
         [hashFn (coreChannelState.truncate newState)]))"
  by (simp add: generateSignedChannelCommitment_def Let_def)

text \<open>
  Witness for C10: Bob's signer given both signatures returns them and signs nothing;
  given only Alice's signature it signs the hash and fills the bob slot.
\<close>

theorem generateSignedChannelCommitment_slots_witness:
  "generateSignedChannelCommitment hashFixture (sampleChannel 4) bobSigner (Some ''sigA'') (Some ''sigB'') =
     (Inr \<lparr>core = coreChannelState.truncate (sampleChannel 4),
           commitmentAliceSignature = Some ''sigA'', commitmentBobSignature = Some ''sigB''\<rparr>, []) \<and>
   generateSignedChannelCommitment hashFixture (sampleChannel 4) bobSigner (Some ''sigA'') None =
     (Inr \<lparr>core = coreChannelState.truncate (sampleChannel 4),
           commitmentAliceSignature = Some ''sigA'', commitmentBobSignature = Some ''sigB/0xh4''\<rparr>,
      [''0xh4''])"
  using generateSignedChannelCommitment_slots
          [of "Some ''sigA''" "Some ''sigB''" hashFixture "sampleChannel 4" bobSigner]
        generateSignedChannelCommitment_slots
          [of "Some ''sigA''" None hashFixture "sampleChannel 4" bobSigner "''sigB/0xh4''"]
  by (simp add: truthy_def bobSigner_def hashFixture_def sampleChannel_def
      coreChannelState.truncate_def)

subsection \<open>Merging duplicated asset ids\<close>

lemma toLowerCase_fixture:
  "toLowerCase DAI = dai" "toLowerCase dai = dai" "toLowerCase AddressZero = AddressZero"
  by (simp_all add: toLowerCase_def lowerChar_def DAI_def dai_def AddressZero_def)

lemma fixture_distinct: "dai \<noteq> AddressZero" "DAI \<noteq> AddressZero" "DAI \<noteq> dai"
  by (simp_all add: DAI_def dai_def AddressZero_def)

text \<open>
  Claim C8, evaluated on a channel that lists one token twice (balances \<open>[1, 2]\<close> and
  \<open>[3, 4]\<close>, defund nonces 2 and 1) followed by the native asset (defund nonce 1). The
  merged entry has the checksummed id, balance \<open>[4, 6]\<close> and processed deposits 4 and
  6, but its defund nonce is 1, the nonce of the native asset, not the maximum 2 of the
  duplicates; and the index of the second duplicate is left as a hole in all five arrays.
\<close>

theorem mergeAssetIds_defund_nonce_of_other_asset:
  "mergeAssetIds getAddressFixture dupChannel =
     Returned
       \<lparr>mAssetIds = [Some DAI, None, Some AddressZero],
        mProcessedDepositsA = [Some 4, None, Some 0],
        mProcessedDepositsB = [Some 6, None, Some 0],
        mBalances = [Some \<lparr>to = [''0xA'', ''0xB''], amount = [4, 6]\<rparr>, None,
                     Some \<lparr>to = [''0xA'', ''0xB''], amount = [0, 0]\<rparr>],
        mDefundNonces = [Some ''1'', None, Some ''1'']\<rparr>"
  by (simp add: mergeAssetIds_def dupChannel_def sampleChannel_def mergeStep_def
      getAddressFixture_def toLowerCase_fixture fixture_distinct fixture_distinct[symmetric]
      sumForAsset_def balanceForAsset_def defundNonceForAsset_def unprocessedAsset_def
      at_index_def assignAt_def upt_rec)

subsection \<open>Retries of a transaction\<close>

lemma send_alwaysRetryable:
  "sendTxAndParseResponse alwaysRetryable k = Inl (ChainError ''Invalid nonce'' [] True)"
  by (simp add: sendTxAndParseResponse_def alwaysRetryable_def)

text \<open>
  When every attempt fails with an error that may be retried, the loop of
  \<open>sendTxWithRetries\<close> can return only from a counter that is not positive.
\<close>

lemma sendTxLoop_returns_only_from_nonpositive:
  assumes returns: "sendTxLoop env d st = Some r"
      and retryable: "\<forall>k. \<exists>e. sendTxAndParseResponse env k = Inl e \<and> canRetry e"
  shows "fst st \<le> 0"
proof -
  have "(\<forall>k. \<exists>e. sendTxAndParseResponse env k = Inl e \<and> canRetry e) \<longrightarrow> fst st \<le> 0"
  proof (rule sendTxLoop.raw_induct
      [where P = "\<lambda>env d st r. (\<forall>k. \<exists>e. sendTxAndParseResponse env k = Inl e \<and> canRetry e)
                     \<longrightarrow> fst st \<le> 0", OF _ returns])
    fix f :: "txEnv \<Rightarrow> int \<Rightarrow> int \<times> chainError list \<times> nat
                \<Rightarrow> ((chainError + string option) \<times> nat) option"
    fix env' d' st' r'
    assume IH: "\<And>env d st r. f env d st = Some r \<Longrightarrow>
                  (\<forall>k. \<exists>e. sendTxAndParseResponse env k = Inl e \<and> canRetry e) \<longrightarrow> fst st \<le> 0"
    assume body: "(case st' of (attempt, errs, k) \<Rightarrow>
        if attempt \<noteq> 0 then
          (case sendTxAndParseResponse env' k of
             Inr response \<Rightarrow> Some (Inr response, Suc k)
           | Inl error \<Rightarrow>
               if \<not> canRetry error then Some (Inl error, Suc k)
               else f env' d' (attempt + 1, errs @ [error], Suc k))
        else
          Some (Inl (ChainError ''FailedToSendTx'' (map chainMessage errs) False), k)) = Some r'"
    show "(\<forall>k. \<exists>e. sendTxAndParseResponse env' k = Inl e \<and> canRetry e) \<longrightarrow> fst st' \<le> 0"
    proof
      assume allRetry: "\<forall>k. \<exists>e. sendTxAndParseResponse env' k = Inl e \<and> canRetry e"
      obtain attempt errs k where st: "st' = (attempt, errs, k)" by (cases st') auto
      from allRetry obtain e where e: "sendTxAndParseResponse env' k = Inl e" "canRetry e" by blast
      show "fst st' \<le> 0"
      proof (rule ccontr)
        assume pos: "\<not> fst st' \<le> 0"
        with body st e have "f env' d' (attempt + 1, errs @ [e], Suc k) = Some r'" by simp
        from IH[OF this] allRetry have "attempt + 1 \<le> 0" by simp
        with pos st show False by simp
      qed
    qed
  qed
  with retryable show ?thesis by blast
qed

text \<open>
  Claim C9, evaluated with the default \<open>defaultRetries = 1\<close> on a signer whose every
  transaction is refused with an error that may be retried: \<open>sendTxWithRetries\<close> never
  returns, instead of returning a failure after its bounded number of retries.
\<close>

theorem sendTxWithRetries_never_returns:
  "sendTxWithRetries alwaysRetryable 1 0 = None"
proof (cases "sendTxWithRetries alwaysRetryable 1 0")
  case None
  then show ?thesis .
next
  case (Some r)
  have "\<forall>k. \<exists>e. sendTxAndParseResponse alwaysRetryable k = Inl e \<and> canRetry e"
    by (simp add: send_alwaysRetryable)
  from sendTxLoop_returns_only_from_nonpositive[OF Some[unfolded sendTxWithRetries_def] this]
  show ?thesis by simp
qed

subsection \<open>The syncer\<close>

text \<open>
  Claim C7 fails as stated: a deposit update that lacks Alice's signature makes the
  syncer, called by \<open>inbound\<close>, fail with the reason \<open>SyncFailure\<close>; the message
  about the single signature is the \<open>syncError\<close> entry of the context.
\<close>

theorem syncState_single_signed_is_SyncFailure:
  "fst (syncState (sampleUpdate Deposit 6 None (Some ''sigB'')) (Some (sampleChannel 5)) []
          (inboundSyncError (sampleUpdate Deposit 6 None (Some ''sigB'')) (Some (sampleChannel 5)))
          (acceptingServices 6) (worldAt 5)) =
     Inl \<lparr>inMessage = Inbound_SyncFailure,
          inUpdate = Some (sampleUpdate Deposit 6 None (Some ''sigB'')),
          inState = Some (sampleChannel 5),
          inContext = [(''syncError'', CtxMessage (Text ''Cannot sync single signed state''))]\<rparr> \<and>
   Inbound_SyncFailure \<noteq> Inbound_CannotSyncSingleSigned"
  by (simp add: syncState_def inboundSyncError_def truthy_def sampleUpdate_def)

text \<open>
  Claim C7, amended. A setup update makes the syncer fail with the caller's error for
  \<open>CannotSyncSetup\<close>, whose reason is \<open>CannotSyncSetup\<close> for both callers. Any other
  update that lacks the alice or the bob signature makes it fail with the caller's error
  for the message "Cannot sync single signed state", whose reason is \<open>SyncFailure\<close>
  for both callers and whose context carries the message as \<open>syncError\<close>. In both
  cases the store and the messages are as they were.
\<close>

theorem syncState_rejections:
  "(uType toSync = Setup \<longrightarrow>
      syncState toSync previousState activeTransfers handleError sv w =
        (Inl (handleError Inbound_CannotSyncSetup), w) \<and>
      inMessage (inboundSyncError toSync previousState Inbound_CannotSyncSetup) =
        Inbound_CannotSyncSetup \<and>
      outMessage (outboundSyncError attemptedParams previousState Inbound_CannotSyncSetup) =
        Outbound_CannotSyncSetup) \<and>
   (uType toSync \<noteq> Setup \<and>
    (\<not> truthy (aliceSignature toSync) \<or> \<not> truthy (bobSignature toSync)) \<longrightarrow>
      syncState toSync previousState activeTransfers handleError sv w =
        (Inl (handleError (Text ''Cannot sync single signed state'')), w) \<and>
      inboundSyncError toSync previousState (Text ''Cannot sync single signed state'') =
        \<lparr>inMessage = Inbound_SyncFailure, inUpdate = Some toSync, inState = previousState,
         inContext = [(''syncError'', CtxMessage (Text ''Cannot sync single signed state''))]\<rparr> \<and>
      outboundSyncError attemptedParams previousState (Text ''Cannot sync single signed state'') =
        \<lparr>outMessage = Outbound_SyncFailure, outParams = attemptedParams, outState = previousState,
         outContext = [(''syncError'', CtxMessage (Text ''Cannot sync single signed state''))]\<rparr>)"
  by (simp add: syncState_def inboundSyncError_def outboundSyncError_def)

text \<open>
  Witness for C7 amended: a setup update and a deposit update signed by Bob only, both
  synced on the channel at nonce 5 with the error handler of \<open>inbound\<close>.
\<close>

theorem syncState_rejections_witness:
  "syncState (sampleUpdate Setup 1 (Some ''sigA'') (Some ''sigB'')) (Some (sampleChannel 5)) []
     (inboundSyncError (sampleUpdate Setup 1 (Some ''sigA'') (Some ''sigB'')) (Some (sampleChannel 5)))
     (acceptingServices 6) (worldAt 5) =
     (Inl \<lparr>inMessage = Inbound_CannotSyncSetup,
           inUpdate = Some (sampleUpdate Setup 1 (Some ''sigA'') (Some ''sigB'')),
           inState = Some (sampleChannel 5),
           inContext = [(''syncError'', CtxMessage Inbound_CannotSyncSetup)]\<rparr>, worldAt 5) \<and>
   syncState (sampleUpdate Deposit 6 None (Some ''sigB'')) (Some (sampleChannel 5)) []
     (inboundSyncError (sampleUpdate Deposit 6 None (Some ''sigB'')) (Some (sampleChannel 5)))
     (acceptingServices 6) (worldAt 5) =
     (Inl \<lparr>inMessage = Inbound_SyncFailure,
           inUpdate = Some (sampleUpdate Deposit 6 None (Some ''sigB'')),
           inState = Some (sampleChannel 5),
           inContext = [(''syncError'', CtxMessage (Text ''Cannot sync single signed state''))]\<rparr>,
      worldAt 5)"
  using syncState_rejections
          [of "sampleUpdate Setup 1 (Some ''sigA'') (Some ''sigB'')" "Some (sampleChannel 5)" "[]"
              "inboundSyncError (sampleUpdate Setup 1 (Some ''sigA'') (Some ''sigB'')) (Some (sampleChannel 5))"
              "acceptingServices 6" "worldAt 5" "sampleParams Deposit"]
        syncState_rejections
          [of "sampleUpdate Deposit 6 None (Some ''sigB'')" "Some (sampleChannel 5)" "[]"
              "inboundSyncError (sampleUpdate Deposit 6 None (Some ''sigB'')) (Some (sampleChannel 5))"
              "acceptingServices 6" "worldAt 5" "sampleParams Deposit"]
  by (simp add: sampleUpdate_def truthy_def inboundSyncError_def)

subsection \<open>Inbound and outbound without a stored channel\<close>

text \<open>
  Claim C2, evaluated on an update with nonce 0 for a channel the store does not hold:
  the stored nonce counts as 0, the difference is 0, and \<open>inbound\<close> throws while it
  reads the latest update of the missing channel; no \<open>StaleUpdate\<close> reply is sent.
\<close>

theorem inbound_throws_without_channel:
  "inbound (sampleUpdate Deposit 0 None (Some ''sigB'')) None ''inbox'' (acceptingServices 5)
     emptyWorld =
     (Threw ''TypeError: Cannot read property latestUpdate of undefined'', emptyWorld)"
  by (simp add: inbound_def extractContextFromStore_def nonceOrZero_def fixture_defs)

text \<open>
  Claim C5, evaluated on a setup proposed without a stored channel, which the peer
  answers with \<open>StaleUpdate\<close> carrying its latest update at nonce 5: the peer is ahead
  by 5, and \<open>outbound\<close> throws while it builds the \<open>RestoreNeeded\<close> error instead of
  returning it.
\<close>

theorem outbound_throws_without_channel:
  "outbound (sampleParams Setup) (acceptingServices 5) emptyWorld =
     (Threw ''TypeError: Cannot read property nonce of undefined'',
      emptyWorld\<lparr>sentMessages := [(sampleUpdate Setup 1 (Some ''sigA'') None, None)]\<rparr>)"
  by (simp add: outbound_def extractContextFromStore_def nonceOrZero_def fixture_defs
      sendProtocolMessage_def syncStateAndRecreateUpdate_def)

subsection \<open>What the engine saves and sends\<close>

lemma saveChannelState_effect:
  assumes "saveChannelState sv w channel transfer = (res, w1)"
  shows "saveCalls w1 = saveCalls w @ [(channel, transfer)] \<and> sentMessages w1 = sentMessages w \<and>
         responses w1 = responses w \<and>
         (case res of Some m \<Rightarrow> channels w1 = channels w
                    | None \<Rightarrow> channels w1 = (channels w)(channelAddress channel := Some channel))"
  using assms by (auto simp: saveChannelState_def Let_def split: option.splits)

lemma syncState_effect:
  assumes "syncState toSync previousState activeTransfers handleError sv w = (res, w1)"
  shows "sentMessages w1 = sentMessages w \<and> responses w1 = responses w \<and>
         ((saveCalls w1 = saveCalls w \<and> channels w1 = channels w \<and> (\<exists>e. res = Inl e)) \<or>
          (\<exists>applied. validateAndApplyInboundUpdate sv toSync previousState activeTransfers = Inr applied \<and>
             saveCalls w1 = saveCalls w @ [(inUpdatedChannel applied, inUpdatedTransfer applied)] \<and>
             (res = Inr applied \<or> (\<exists>e. res = Inl e))))"
proof (cases "uType toSync = Setup \<or> \<not> truthy (aliceSignature toSync) \<or> \<not> truthy (bobSignature toSync)")
  case True
  with assms show ?thesis by (auto simp: syncState_def split: if_splits)
next
  case False
  show ?thesis
  proof (cases "validateAndApplyInboundUpdate sv toSync previousState activeTransfers")
    case (Inl e)
    with False assms show ?thesis by (auto simp: syncState_def)
  next
    case (Inr applied)
    obtain r w2 where s: "saveChannelState sv w (inUpdatedChannel applied) (inUpdatedTransfer applied) = (r, w2)"
      by (cases "saveChannelState sv w (inUpdatedChannel applied) (inUpdatedTransfer applied)") auto
    from saveChannelState_effect[OF s] False Inr assms s show ?thesis
      by (cases r) (auto simp: syncState_def)
  qed
qed

lemma outboundFinish_effect:
  assumes "outboundFinish sv w params counterpartyResult previousState applied = (r, w')"
  shows "sentMessages w' = sentMessages w \<and> responses w' = responses w \<and>
         ((saveCalls w' = saveCalls w \<and> channels w' = channels w \<and>
           (\<exists>e. r = Returned (Inl e) \<and> outMessage e \<noteq> Outbound_SaveChannelFailed)) \<or>
          (\<exists>saved. saveCalls w' = saveCalls w @ [(saved, outUpdatedTransfer applied)] \<and>
             ((\<exists>v. r = Returned (Inr v) \<and> updatedChannel v = saved \<and>
                   updatedTransfer v = outUpdatedTransfer applied) \<or>
              (\<exists>e. r = Returned (Inl e) \<and> outMessage e = Outbound_SaveChannelFailed \<and>
                   channels w' = channels w))))"
proof (cases counterpartyResult)
  case (Inl error)
  with assms show ?thesis by (auto simp: outboundFinish_def)
next
  case (Inr reply)
  obtain cu cp where reply: "reply = (cu, cp)" by (cases reply) auto
  show ?thesis
  proof (cases "validateChannelSignatures sv (outUpdatedChannel applied) (aliceSignature cu) (bobSignature cu)")
    case (Some m)
    with assms Inr reply show ?thesis by (auto simp: outboundFinish_def)
  next
    case None
    let ?saved = "(outUpdatedChannel applied)\<lparr>latestUpdate := cu\<rparr>"
    obtain res w1 where s: "saveChannelState sv w ?saved (outUpdatedTransfer applied) = (res, w1)"
      by (cases "saveChannelState sv w ?saved (outUpdatedTransfer applied)") auto
    from saveChannelState_effect[OF s] assms Inr reply None s show ?thesis
      by (cases res) (auto simp: outboundFinish_def Let_def)
  qed
qed

lemma sendProtocolMessage_effect:
  assumes "sendProtocolMessage sv w u p = (res, w1)"
  shows "sentMessages w1 = sentMessages w @ [(u, p)] \<and> saveCalls w1 = saveCalls w \<and>
         channels w1 = channels w \<and> responses w1 = responses w \<and>
         res = counterpartyReply sv (sentMessages w @ [(u, p)])"
  using assms by (auto simp: sendProtocolMessage_def Let_def)

lemma syncStateAndRecreateUpdate_effect:
  assumes "syncStateAndRecreateUpdate receivedError params previousState activeTransfers sv w = (r, w1)"
  shows "sentMessages w1 = sentMessages w \<and> responses w1 = responses w \<and>
         ((saveCalls w1 = saveCalls w \<and> channels w1 = channels w \<and> (\<forall>v. r \<noteq> Returned (Inr v))) \<or>
          (\<exists>cu synced. inUpdate receivedError = Some cu \<and>
             validateAndApplyInboundUpdate sv cu previousState activeTransfers = Inr synced \<and>
             saveCalls w1 = saveCalls w @ [(inUpdatedChannel synced, inUpdatedTransfer synced)]))"
proof (cases "inUpdate receivedError")
  case None
  with assms show ?thesis by (auto simp: syncStateAndRecreateUpdate_def)
next
  case (Some cu)
  show ?thesis
  proof (cases "uNonce cu - nonceOrZero previousState \<noteq> 1")
    case True
    with assms Some show ?thesis
      by (auto simp: syncStateAndRecreateUpdate_def Let_def split: option.splits)
  next
    case False
    obtain res w2 where s: "syncState cu previousState activeTransfers
            (outboundSyncError params previousState) sv w = (res, w2)"
      by (cases "syncState cu previousState activeTransfers (outboundSyncError params previousState) sv w") auto
    from syncState_effect[OF s] assms Some False s show ?thesis
      by (auto simp: syncStateAndRecreateUpdate_def Let_def split: sum.splits)
  qed
qed

text \<open>
  Claim C4 fails as stated: the stored channel is at nonce 5, the peer answers the
  proposed deposit with \<open>StaleUpdate\<close> carrying its update at nonce 6 and lets the
  retried message time out. \<open>outbound\<close> returns \<open>CounterpartyOffline\<close>, yet the
  syncer has saved a channel state and the store holds the channel at nonce 6.
\<close>

theorem outbound_sync_saves_then_fails:
  "fst (outbound (sampleParams Deposit) (acceptingServices 6) (worldAt 5)) =
     Returned (Inl \<lparr>outMessage = Outbound_CounterpartyOffline, outParams = sampleParams Deposit,
                    outState = Some ((sampleChannel 6)\<lparr>latestUpdate := sampleUpdate Deposit 6 (Some ''sigA'') (Some ''sigB'')\<rparr>),
                    outContext = [(''counterpartyError'', CtxMessage Messaging_Timeout)]\<rparr>) \<and>
   saveCalls (worldAt 5) = [] \<and>
   saveCalls (snd (outbound (sampleParams Deposit) (acceptingServices 6) (worldAt 5))) =
     [((sampleChannel 6)\<lparr>latestUpdate := sampleUpdate Deposit 6 (Some ''sigA'') (Some ''sigB'')\<rparr>, None)] \<and>
   map_option nonce (channels (worldAt 5) ''0xC'') = Some 5 \<and>
   map_option nonce (channels (snd (outbound (sampleParams Deposit) (acceptingServices 6) (worldAt 5))) ''0xC'') = Some 6"
  by (simp add: outbound_def extractContextFromStore_def nonceOrZero_def fixture_defs sendProtocolMessage_def
     syncStateAndRecreateUpdate_def syncState_def truthy_def specValidateAndApplyInboundUpdate_def
     saveChannelState_def outboundFinish_def outboundSyncError_def Let_def)

lemma outboundFinish_save:
  assumes "outboundFinish sv w params counterpartyResult previousState applied = (r, w')"
      and "saveCalls w' \<noteq> saveCalls w"
  shows "\<exists>cu cp. counterpartyResult = Inr (cu, cp) \<and>
           validateChannelSignatures sv (outUpdatedChannel applied)
             (aliceSignature cu) (bobSignature cu) = None \<and>
           saveCalls w' = saveCalls w @
             [((outUpdatedChannel applied)\<lparr>latestUpdate := cu\<rparr>, outUpdatedTransfer applied)] \<and>
           (r = Returned (Inr \<lparr>updatedChannel = (outUpdatedChannel applied)\<lparr>latestUpdate := cu\<rparr>,
                               updatedTransfers = outUpdatedActiveTransfers applied,
                               updatedTransfer = outUpdatedTransfer applied\<rparr>) \<or>
            (\<exists>e. r = Returned (Inl e) \<and> outMessage e = Outbound_SaveChannelFailed))"
proof (cases counterpartyResult)
  case (Inl error)
  with assms show ?thesis by (auto simp: outboundFinish_def)
next
  case (Inr reply)
  obtain cu cp where reply: "reply = (cu, cp)" by (cases reply) auto
  show ?thesis
  proof (cases "validateChannelSignatures sv (outUpdatedChannel applied) (aliceSignature cu) (bobSignature cu)")
    case (Some m)
    with assms Inr reply show ?thesis by (auto simp: outboundFinish_def)
  next
    case None
    let ?saved = "(outUpdatedChannel applied)\<lparr>latestUpdate := cu\<rparr>"
    obtain res w1 where s: "saveChannelState sv w ?saved (outUpdatedTransfer applied) = (res, w1)"
      by (cases "saveChannelState sv w ?saved (outUpdatedTransfer applied)") auto
    from saveChannelState_effect[OF s] assms Inr reply None s show ?thesis
      by (cases res) (auto simp: outboundFinish_def Let_def)
  qed
qed

lemma outboundFinish_error:
  "outboundFinish sv w params (Inl error) previousState applied =
     (Returned (Inl \<lparr>outMessage = (if inMessage error = Messaging_Timeout
                                    then Outbound_CounterpartyOffline
                                    else Outbound_CounterpartyFailure),
                     outParams = params, outState = previousState,
                     outContext = [(''counterpartyError'', CtxMessage (inMessage error))]\<rparr>), w)"
  by (simp add: outboundFinish_def)

lemma outboundFinish_bad_signatures:
  assumes "validateChannelSignatures sv (outUpdatedChannel applied)
             (aliceSignature cu) (bobSignature cu) = Some m"
  shows "outboundFinish sv w params (Inr (cu, cp)) previousState applied =
     (Returned (Inl \<lparr>outMessage = Outbound_BadSignatures, outParams = params,
                     outState = previousState,
                     outContext = [(''recoveryError'', CtxText m)]\<rparr>), w)"
  using assms by (simp add: outboundFinish_def)

lemma outboundFinish_shape:
  assumes fin: "outboundFinish sv wk params reply prevk appliedk = (r, w')"
      and reply: "reply = counterpartyReply sv (sentMessages wk)"
      and vp: "validateParamsAndApplyUpdate sv params prevv actsk = Inr appliedk"
      and fs: "finalSaves = drop (length (saveCalls wk)) (saveCalls w')"
  shows "saveCalls w' = saveCalls wk @ finalSaves"
    and "length finalSaves \<le> 1"
    and "sentMessages w' = sentMessages wk"
    and "finalSaves \<noteq> [] \<longrightarrow>
              (\<exists>cu cp prev' acts' applied'.
                 validateParamsAndApplyUpdate sv params prev' acts' = Inr applied' \<and>
                 counterpartyReply sv (sentMessages w') = Inr (cu, cp) \<and>
                 validateChannelSignatures sv (outUpdatedChannel applied')
                   (aliceSignature cu) (bobSignature cu) = None \<and>
                 finalSaves =
                   [((outUpdatedChannel applied')\<lparr>latestUpdate := cu\<rparr>, outUpdatedTransfer applied')] \<and>
                 (r = Returned (Inr \<lparr>updatedChannel = (outUpdatedChannel applied')\<lparr>latestUpdate := cu\<rparr>,
                                     updatedTransfers = outUpdatedActiveTransfers applied',
                                     updatedTransfer = outUpdatedTransfer applied'\<rparr>) \<or>
                  (\<exists>e. r = Returned (Inl e) \<and> outMessage e = Outbound_SaveChannelFailed)))"
    and "(\<exists>v. r = Returned (Inr v)) \<longrightarrow> finalSaves \<noteq> []"
    and "saveCalls w' = saveCalls wk \<longrightarrow> channels w' = channels wk"
proof -
  from outboundFinish_effect[OF fin] show sm: "sentMessages w' = sentMessages wk" by simp
  from outboundFinish_effect[OF fin] show "saveCalls w' = saveCalls wk \<longrightarrow> channels w' = channels wk"
    by auto
  from outboundFinish_effect[OF fin] fs show "saveCalls w' = saveCalls wk @ finalSaves"
    by auto
  from outboundFinish_effect[OF fin] fs show "length finalSaves \<le> 1"
    by auto
  from outboundFinish_effect[OF fin] fs show "(\<exists>v. r = Returned (Inr v)) \<longrightarrow> finalSaves \<noteq> []"
    by auto
  show "finalSaves \<noteq> [] \<longrightarrow>
              (\<exists>cu cp prev' acts' applied'.
                 validateParamsAndApplyUpdate sv params prev' acts' = Inr applied' \<and>
                 counterpartyReply sv (sentMessages w') = Inr (cu, cp) \<and>
                 validateChannelSignatures sv (outUpdatedChannel applied')
                   (aliceSignature cu) (bobSignature cu) = None \<and>
                 finalSaves =
                   [((outUpdatedChannel applied')\<lparr>latestUpdate := cu\<rparr>, outUpdatedTransfer applied')] \<and>
                 (r = Returned (Inr \<lparr>updatedChannel = (outUpdatedChannel applied')\<lparr>latestUpdate := cu\<rparr>,
                                     updatedTransfers = outUpdatedActiveTransfers applied',
                                     updatedTransfer = outUpdatedTransfer applied'\<rparr>) \<or>
                  (\<exists>e. r = Returned (Inl e) \<and> outMessage e = Outbound_SaveChannelFailed)))"
  proof
    assume ne: "finalSaves \<noteq> []"
    with fs have False: "saveCalls w' \<noteq> saveCalls wk" by auto
    from outboundFinish_save[OF fin False] obtain cu cp where
      c: "reply = Inr (cu, cp)"
         "validateChannelSignatures sv (outUpdatedChannel appliedk)
             (aliceSignature cu) (bobSignature cu) = None"
         "saveCalls w' = saveCalls wk @
             [((outUpdatedChannel appliedk)\<lparr>latestUpdate := cu\<rparr>, outUpdatedTransfer appliedk)]"
         "r = Returned (Inr \<lparr>updatedChannel = (outUpdatedChannel appliedk)\<lparr>latestUpdate := cu\<rparr>,
                               updatedTransfers = outUpdatedActiveTransfers appliedk,
                               updatedTransfer = outUpdatedTransfer appliedk\<rparr>) \<or>
            (\<exists>e. r = Returned (Inl e) \<and> outMessage e = Outbound_SaveChannelFailed)"
      by blast
    have last: "counterpartyReply sv (sentMessages w') = Inr (cu, cp)"
      using sm reply c(1) by simp
    have f: "finalSaves =
        [((outUpdatedChannel appliedk)\<lparr>latestUpdate := cu\<rparr>, outUpdatedTransfer appliedk)]"
      using fs c(3) by simp
    from vp last c(2) f c(4)
    show "\<exists>cu cp prev' acts' applied'.
                 validateParamsAndApplyUpdate sv params prev' acts' = Inr applied' \<and>
                 counterpartyReply sv (sentMessages w') = Inr (cu, cp) \<and>
                 validateChannelSignatures sv (outUpdatedChannel applied')
                   (aliceSignature cu) (bobSignature cu) = None \<and>
                 finalSaves =
                   [((outUpdatedChannel applied')\<lparr>latestUpdate := cu\<rparr>, outUpdatedTransfer applied')] \<and>
                 (r = Returned (Inr \<lparr>updatedChannel = (outUpdatedChannel applied')\<lparr>latestUpdate := cu\<rparr>,
                                     updatedTransfers = outUpdatedActiveTransfers applied',
                                     updatedTransfer = outUpdatedTransfer applied'\<rparr>) \<or>
                  (\<exists>e. r = Returned (Inl e) \<and> outMessage e = Outbound_SaveChannelFailed))"
      by blast
  qed
qed

lemma outbound_validation_failure:
  assumes "extractContextFromStore sv w (pChannelAddress params) = Inr (acts, prev)"
      and "validateParamsAndApplyUpdate sv params prev acts = Inl e"
  shows "outbound params sv w = (Returned (Inl e), w)"
  using assms by (simp add: outbound_def)

lemma outbound_first_error:
  assumes "extractContextFromStore sv w (pChannelAddress params) = Inr (acts, prev)"
      and "validateParamsAndApplyUpdate sv params prev acts = Inr applied"
      and "counterpartyReply sv
             (sentMessages w @ [(outUpdate applied, map_option latestUpdate prev)]) = Inl error"
      and "inMessage error \<noteq> Inbound_StaleUpdate"
  shows "outbound params sv w =
     (Returned (Inl \<lparr>outMessage = (if inMessage error = Messaging_Timeout
                                    then Outbound_CounterpartyOffline
                                    else Outbound_CounterpartyFailure),
                     outParams = params, outState = prev,
                     outContext = [(''counterpartyError'', CtxMessage (inMessage error))]\<rparr>),
      w\<lparr>sentMessages := sentMessages w @ [(outUpdate applied, map_option latestUpdate prev)]\<rparr>)"
  using assms by (simp add: outbound_def sendProtocolMessage_def Let_def outboundFinish_error)

lemma outbound_first_bad_signatures:
  assumes "extractContextFromStore sv w (pChannelAddress params) = Inr (acts, prev)"
      and "validateParamsAndApplyUpdate sv params prev acts = Inr applied"
      and "counterpartyReply sv
             (sentMessages w @ [(outUpdate applied, map_option latestUpdate prev)]) = Inr (cu, cp)"
      and "validateChannelSignatures sv (outUpdatedChannel applied)
             (aliceSignature cu) (bobSignature cu) = Some m"
  shows "outbound params sv w =
     (Returned (Inl \<lparr>outMessage = Outbound_BadSignatures, outParams = params, outState = prev,
                     outContext = [(''recoveryError'', CtxText m)]\<rparr>),
      w\<lparr>sentMessages := sentMessages w @ [(outUpdate applied, map_option latestUpdate prev)]\<rparr>)"
  using assms
  by (simp add: outbound_def sendProtocolMessage_def Let_def outboundFinish_bad_signatures)

lemma outbound_retry:
  assumes "extractContextFromStore sv w (pChannelAddress params) = Inr (acts, prev)"
      and "validateParamsAndApplyUpdate sv params prev acts = Inr applied"
      and "counterpartyReply sv
             (sentMessages w @ [(outUpdate applied, map_option latestUpdate prev)]) = Inl error"
      and "inMessage error = Inbound_StaleUpdate"
      and "syncStateAndRecreateUpdate error params prev acts sv
             (w\<lparr>sentMessages := sentMessages w @ [(outUpdate applied, map_option latestUpdate prev)]\<rparr>)
           = (Returned (Inr (regenerated, syncedChannel)), w2)"
  shows "outbound params sv w =
           outboundFinish sv
             (w2\<lparr>sentMessages := sentMessages w2 @
                    [(outUpdate regenerated, Some (latestUpdate (outUpdatedChannel regenerated)))]\<rparr>)
             params
             (counterpartyReply sv
                (sentMessages w2 @
                   [(outUpdate regenerated, Some (latestUpdate (outUpdatedChannel regenerated)))]))
             (Some syncedChannel) regenerated"
  using assms by (simp add: outbound_def sendProtocolMessage_def Let_def)

lemma outbound_sync_failure:
  assumes "extractContextFromStore sv w (pChannelAddress params) = Inr (acts, prev)"
      and "validateParamsAndApplyUpdate sv params prev acts = Inr applied"
      and "counterpartyReply sv
             (sentMessages w @ [(outUpdate applied, map_option latestUpdate prev)]) = Inl error"
      and "inMessage error = Inbound_StaleUpdate"
  shows "syncStateAndRecreateUpdate error params prev acts sv
             (w\<lparr>sentMessages := sentMessages w @ [(outUpdate applied, map_option latestUpdate prev)]\<rparr>)
           = (Returned (Inl e), w2) \<Longrightarrow> outbound params sv w = (Returned (Inl e), w2)"
    and "syncStateAndRecreateUpdate error params prev acts sv
             (w\<lparr>sentMessages := sentMessages w @ [(outUpdate applied, map_option latestUpdate prev)]\<rparr>)
           = (Threw m, w2) \<Longrightarrow> outbound params sv w = (Threw m, w2)"
  using assms by (simp_all add: outbound_def sendProtocolMessage_def Let_def)

lemma syncStateAndRecreateUpdate_success:
  assumes "syncStateAndRecreateUpdate error params prev acts sv w1 =
             (Returned (Inr (regenerated, syncedChannel)), w2)"
  shows "\<exists>cu synced.
           inUpdate error = Some cu \<and> uNonce cu - nonceOrZero prev = 1 \<and>
           validateAndApplyInboundUpdate sv cu prev acts = Inr synced \<and>
           syncedChannel = inUpdatedChannel synced \<and>
           validateParamsAndApplyUpdate sv params (Some syncedChannel)
             (inUpdatedActiveTransfers synced) = Inr regenerated \<and>
           saveCalls w2 = saveCalls w1 @ [(syncedChannel, inUpdatedTransfer synced)] \<and>
           channels w2 = (channels w1)(channelAddress syncedChannel := Some syncedChannel) \<and>
           sentMessages w2 = sentMessages w1"
proof (cases "inUpdate error")
  case None
  with assms show ?thesis by (simp add: syncStateAndRecreateUpdate_def)
next
  case (Some cu)
  show ?thesis
  proof (cases "uNonce cu - nonceOrZero prev \<noteq> 1")
    case True
    with assms Some show ?thesis
      by (auto simp: syncStateAndRecreateUpdate_def Let_def split: option.splits)
  next
    case False
    obtain res w3 where s: "syncState cu prev acts (outboundSyncError params prev) sv w1 = (res, w3)"
      by (cases "syncState cu prev acts (outboundSyncError params prev) sv w1") auto
    with assms Some False obtain synced where res: "res = Inr synced"
      by (cases res) (auto simp: syncStateAndRecreateUpdate_def Let_def)
    from assms Some False s res have w: "w3 = w2" and sc: "syncedChannel = inUpdatedChannel synced"
      and vp: "validateParamsAndApplyUpdate sv params (Some (inUpdatedChannel synced))
             (inUpdatedActiveTransfers synced) = Inr regenerated"
      by (auto simp: syncStateAndRecreateUpdate_def Let_def split: sum.splits)
    from s res have ns: "uType cu \<noteq> Setup" "truthy (aliceSignature cu)" "truthy (bobSignature cu)"
      by (auto simp: syncState_def split: if_splits)
    with s res have va: "validateAndApplyInboundUpdate sv cu prev acts = Inr synced"
      by (auto simp: syncState_def split: sum.splits prod.splits option.splits)
    from s res ns va obtain sres where
      sv: "saveChannelState sv w1 (inUpdatedChannel synced) (inUpdatedTransfer synced) = (sres, w3)"
      by (cases "saveChannelState sv w1 (inUpdatedChannel synced) (inUpdatedTransfer synced)")
         (auto simp: syncState_def split: option.splits)
    from s res ns va sv have "sres = None"
      by (cases sres) (auto simp: syncState_def)
    with saveChannelState_effect[OF sv] Some False va sc vp w show ?thesis by auto
  qed
qed

lemma outbound_saves_shape:
  assumes run: "outbound params sv w = (r, w')"
  shows "(\<exists>syncSaves finalSaves.
            saveCalls w' = saveCalls w @ syncSaves @ finalSaves \<and>
            length syncSaves \<le> 1 \<and> length finalSaves \<le> 1 \<and>
            (syncSaves \<noteq> [] \<longrightarrow>
               (\<exists>error. counterpartyReply sv (take (Suc (length (sentMessages w))) (sentMessages w'))
                           = Inl error \<and> inMessage error = Inbound_StaleUpdate)) \<and>
            (finalSaves \<noteq> [] \<longrightarrow>
               (\<exists>cu cp prev' acts' applied'.
                  validateParamsAndApplyUpdate sv params prev' acts' = Inr applied' \<and>
                  counterpartyReply sv (sentMessages w') = Inr (cu, cp) \<and>
                  validateChannelSignatures sv (outUpdatedChannel applied')
                    (aliceSignature cu) (bobSignature cu) = None \<and>
                  finalSaves =
                    [((outUpdatedChannel applied')\<lparr>latestUpdate := cu\<rparr>, outUpdatedTransfer applied')] \<and>
                  (r = Returned (Inr \<lparr>updatedChannel = (outUpdatedChannel applied')\<lparr>latestUpdate := cu\<rparr>,
                                      updatedTransfers = outUpdatedActiveTransfers applied',
                                      updatedTransfer = outUpdatedTransfer applied'\<rparr>) \<or>
                   (\<exists>e. r = Returned (Inl e) \<and> outMessage e = Outbound_SaveChannelFailed)))) \<and>
            ((\<exists>v. r = Returned (Inr v)) \<longrightarrow> finalSaves \<noteq> [])) \<and>
         (saveCalls w' = saveCalls w \<longrightarrow> channels w' = channels w)"
proof (cases "extractContextFromStore sv w (pChannelAddress params)")
  case (Inl m)
  with run have "w' = w" "\<not> (\<exists>v. r = Returned (Inr v))" by (auto simp: outbound_def)
  then show ?thesis by (intro conjI exI[of _ "[]"]) simp_all
next
  case (Inr ctx)
  obtain acts prev where ctx: "ctx = (acts, prev)" by (cases ctx) auto
  show ?thesis
  proof (cases "validateParamsAndApplyUpdate sv params prev acts")
    case (Inl e)
    with run Inr ctx have "w' = w" "\<not> (\<exists>v. r = Returned (Inr v))" by (auto simp: outbound_def)
    then show ?thesis by (intro conjI exI[of _ "[]"]) simp_all
  next
    case applied: (Inr applied)
    let ?first = "(outUpdate applied, map_option latestUpdate prev)"
    let ?w1 = "w\<lparr>sentMessages := sentMessages w @ [?first]\<rparr>"
    let ?reply = "counterpartyReply sv (sentMessages w @ [?first])"
    have send1: "sendProtocolMessage sv w (outUpdate applied) (map_option latestUpdate prev) =
                   (?reply, ?w1)"
      by (simp add: sendProtocolMessage_def Let_def)
    show ?thesis
    proof (cases "\<exists>error. ?reply = Inl error \<and> inMessage error = Inbound_StaleUpdate")
      case False
      with run Inr ctx applied send1
      have fin: "outboundFinish sv ?w1 params ?reply prev applied = (r, w')"
        by (cases ?reply) (auto simp: outbound_def)
      define finalSaves where "finalSaves = drop (length (saveCalls ?w1)) (saveCalls w')"
      note f = outboundFinish_shape[OF fin _ applied finalSaves_def, simplified]
      show ?thesis
        apply (intro conjI)
         apply (rule exI[of _ "[]"], rule exI[of _ finalSaves])
        using f by simp_all
    next
      case True
      then obtain error where err: "?reply = Inl error" "inMessage error = Inbound_StaleUpdate"
        by blast
      have stale: "\<And>w''. take (Suc (length (sentMessages w))) (sentMessages w'') = sentMessages ?w1 \<Longrightarrow>
        \<exists>error. counterpartyReply sv (take (Suc (length (sentMessages w))) (sentMessages w''))
                           = Inl error \<and> inMessage error = Inbound_StaleUpdate"
        using err by simp
      obtain sr w2 where sync:
        "syncStateAndRecreateUpdate error params prev acts sv ?w1 = (sr, w2)"
        by (cases "syncStateAndRecreateUpdate error params prev acts sv ?w1") auto
      note s2 = syncStateAndRecreateUpdate_effect[OF sync]
      show ?thesis
      proof (cases "\<exists>regenerated syncedChannel. sr = Returned (Inr (regenerated, syncedChannel))")
        case False
        with run Inr ctx applied send1 err sync have rw: "w' = w2" "\<not> (\<exists>v. r = Returned (Inr v))"
          by (auto simp: outbound_def split: outcome.splits sum.splits prod.splits)
        have tk: "take (Suc (length (sentMessages w))) (sentMessages w') = sentMessages ?w1"
          using s2 rw by simp
        note st = stale[OF tk]
        from s2 have "\<exists>syncSaves. saveCalls w2 = saveCalls w @ syncSaves \<and> length syncSaves \<le> 1 \<and>
            (syncSaves = [] \<longrightarrow> channels w2 = channels w)"
        proof (elim conjE disjE exE)
          assume "saveCalls w2 = saveCalls ?w1" "channels w2 = channels ?w1"
          then show ?thesis by (intro exI[of _ "[]"]) simp
        next
          fix cu synced
          assume "saveCalls w2 = saveCalls ?w1 @ [(inUpdatedChannel synced, inUpdatedTransfer synced)]"
          then show ?thesis
            by (intro exI[of _ "[(inUpdatedChannel synced, inUpdatedTransfer synced)]"]) simp
        qed
        then obtain syncSaves where ss: "saveCalls w2 = saveCalls w @ syncSaves"
          "length syncSaves \<le> 1" "syncSaves = [] \<longrightarrow> channels w2 = channels w" by blast
        show ?thesis
          apply (intro conjI)
           apply (rule exI[of _ syncSaves], rule exI[of _ "[]"])
          using ss rw st by auto
      next
        case True
        then obtain regenerated syncedChannel where
          sr: "sr = Returned (Inr (regenerated, syncedChannel))" by blast
        let ?second = "(outUpdate regenerated, Some (latestUpdate (outUpdatedChannel regenerated)))"
        let ?w3 = "w2\<lparr>sentMessages := sentMessages w2 @ [?second]\<rparr>"
        from syncStateAndRecreateUpdate_success[OF sync[unfolded sr]] obtain synced :: inboundApplied where
          sy: "validateParamsAndApplyUpdate sv params (Some syncedChannel)
                 (inUpdatedActiveTransfers synced) = Inr regenerated"
              "saveCalls w2 = saveCalls ?w1 @ [(syncedChannel, inUpdatedTransfer synced)]"
              "sentMessages w2 = sentMessages ?w1"
          by blast
        from outbound_retry[OF Inr[unfolded ctx] applied err sync[unfolded sr]] run
        have fin: "outboundFinish sv ?w3 params (counterpartyReply sv (sentMessages w2 @ [?second]))
                     (Some syncedChannel) regenerated = (r, w')"
          by simp
        define finalSaves where "finalSaves = drop (length (saveCalls ?w3)) (saveCalls w')"
        note f = outboundFinish_shape[OF fin _ sy(1) finalSaves_def, simplified]
        have tk: "take (Suc (length (sentMessages w))) (sentMessages w') = sentMessages ?w1"
          using f(3) sy(3) by simp
        note st = stale[OF tk]
        show ?thesis
          apply (intro conjI)
           apply (rule exI[of _ "[(syncedChannel, inUpdatedTransfer synced)]"], rule exI[of _ finalSaves])
          using f sy st by simp_all
      qed
    qed
  qed
qed

text \<open>
  Claim C4, amended. Every path of \<open>outbound\<close> before the final save is fixed. If
  validation of the parameters fails, that error is returned and nothing is sent or
  saved. If the first message is answered with an error other than \<open>StaleUpdate\<close>, or
  with an update whose signatures do not verify, the error is returned
  (\<open>CounterpartyOffline\<close>, \<open>CounterpartyFailure\<close> or \<open>BadSignatures\<close>, with the
  previous state) and the only effect is the one message sent: nothing is saved. If the
  first answer is \<open>StaleUpdate\<close> and the sync and the regeneration succeed, the syncer
  has made exactly one save, of the synced channel, and an error answer or a failed
  signature check on the retried message returns the error (with the synced channel as
  state) with the second message as the only further effect. If the sync or the
  regeneration fails or throws, that outcome is returned with the effects of the syncer
  alone. In every run the saves are at most one by the syncer, only after a
  \<open>StaleUpdate\<close> answer to the first message, followed by at most one final save; the
  final save happens only after the last message sent was answered with an update whose
  signatures verify, it saves the proposed channel with that update as latest update,
  and the result is then the success carrying what was saved, or \<open>SaveChannelFailed\<close>;
  a success always comes with the final save. A run without any save leaves the stored
  channels unchanged.
\<close>

theorem outbound_persistence:
  assumes run: "outbound params sv w = (r, w')"
  shows "(\<forall>acts prev e.
            extractContextFromStore sv w (pChannelAddress params) = Inr (acts, prev) \<and>
            validateParamsAndApplyUpdate sv params prev acts = Inl e \<longrightarrow>
              r = Returned (Inl e) \<and> w' = w) \<and>
         (\<forall>acts prev applied error.
            extractContextFromStore sv w (pChannelAddress params) = Inr (acts, prev) \<and>
            validateParamsAndApplyUpdate sv params prev acts = Inr applied \<and>
            counterpartyReply sv
              (sentMessages w @ [(outUpdate applied, map_option latestUpdate prev)]) = Inl error \<and>
            inMessage error \<noteq> Inbound_StaleUpdate \<longrightarrow>
              r = Returned (Inl \<lparr>outMessage = (if inMessage error = Messaging_Timeout
                                                 then Outbound_CounterpartyOffline
                                                 else Outbound_CounterpartyFailure),
                                  outParams = params, outState = prev,
                                  outContext = [(''counterpartyError'', CtxMessage (inMessage error))]\<rparr>) \<and>
              w' = w\<lparr>sentMessages :=
                        sentMessages w @ [(outUpdate applied, map_option latestUpdate prev)]\<rparr>) \<and>
         (\<forall>acts prev applied cu cp m.
            extractContextFromStore sv w (pChannelAddress params) = Inr (acts, prev) \<and>
            validateParamsAndApplyUpdate sv params prev acts = Inr applied \<and>
            counterpartyReply sv
              (sentMessages w @ [(outUpdate applied, map_option latestUpdate prev)]) = Inr (cu, cp) \<and>
            validateChannelSignatures sv (outUpdatedChannel applied)
              (aliceSignature cu) (bobSignature cu) = Some m \<longrightarrow>
              r = Returned (Inl \<lparr>outMessage = Outbound_BadSignatures, outParams = params,
                                  outState = prev,
                                  outContext = [(''recoveryError'', CtxText m)]\<rparr>) \<and>
              w' = w\<lparr>sentMessages :=
                        sentMessages w @ [(outUpdate applied, map_option latestUpdate prev)]\<rparr>) \<and>
         (\<forall>acts prev applied error regenerated syncedChannel w2.
            extractContextFromStore sv w (pChannelAddress params) = Inr (acts, prev) \<and>
            validateParamsAndApplyUpdate sv params prev acts = Inr applied \<and>
            counterpartyReply sv
              (sentMessages w @ [(outUpdate applied, map_option latestUpdate prev)]) = Inl error \<and>
            inMessage error = Inbound_StaleUpdate \<and>
            syncStateAndRecreateUpdate error params prev acts sv
              (w\<lparr>sentMessages :=
                   sentMessages w @ [(outUpdate applied, map_option latestUpdate prev)]\<rparr>) =
              (Returned (Inr (regenerated, syncedChannel)), w2) \<longrightarrow>
              (\<exists>syncedTransfer. saveCalls w2 = saveCalls w @ [(syncedChannel, syncedTransfer)]) \<and>
              (\<forall>error2.
                 counterpartyReply sv
                   (sentMessages w2 @
                      [(outUpdate regenerated, Some (latestUpdate (outUpdatedChannel regenerated)))]) =
                   Inl error2 \<longrightarrow>
                   r = Returned (Inl \<lparr>outMessage = (if inMessage error2 = Messaging_Timeout
                                                      then Outbound_CounterpartyOffline
                                                      else Outbound_CounterpartyFailure),
                                       outParams = params, outState = Some syncedChannel,
                                       outContext =
                                         [(''counterpartyError'', CtxMessage (inMessage error2))]\<rparr>) \<and>
                   w' = w2\<lparr>sentMessages := sentMessages w2 @
                              [(outUpdate regenerated,
                                Some (latestUpdate (outUpdatedChannel regenerated)))]\<rparr>) \<and>
              (\<forall>cu cp m.
                 counterpartyReply sv
                   (sentMessages w2 @
                      [(outUpdate regenerated, Some (latestUpdate (outUpdatedChannel regenerated)))]) =
                   Inr (cu, cp) \<and>
                 validateChannelSignatures sv (outUpdatedChannel regenerated)
                   (aliceSignature cu) (bobSignature cu) = Some m \<longrightarrow>
                   r = Returned (Inl \<lparr>outMessage = Outbound_BadSignatures, outParams = params,
                                       outState = Some syncedChannel,
                                       outContext = [(''recoveryError'', CtxText m)]\<rparr>) \<and>
                   w' = w2\<lparr>sentMessages := sentMessages w2 @
                              [(outUpdate regenerated,
                                Some (latestUpdate (outUpdatedChannel regenerated)))]\<rparr>)) \<and>
         (\<forall>acts prev applied error e w2.
            extractContextFromStore sv w (pChannelAddress params) = Inr (acts, prev) \<and>
            validateParamsAndApplyUpdate sv params prev acts = Inr applied \<and>
            counterpartyReply sv
              (sentMessages w @ [(outUpdate applied, map_option latestUpdate prev)]) = Inl error \<and>
            inMessage error = Inbound_StaleUpdate \<and>
            syncStateAndRecreateUpdate error params prev acts sv
              (w\<lparr>sentMessages :=
                   sentMessages w @ [(outUpdate applied, map_option latestUpdate prev)]\<rparr>) =
              (Returned (Inl e), w2) \<longrightarrow>
              r = Returned (Inl e) \<and> w' = w2) \<and>
         (\<forall>acts prev applied error m w2.
            extractContextFromStore sv w (pChannelAddress params) = Inr (acts, prev) \<and>
            validateParamsAndApplyUpdate sv params prev acts = Inr applied \<and>
            counterpartyReply sv
              (sentMessages w @ [(outUpdate applied, map_option latestUpdate prev)]) = Inl error \<and>
            inMessage error = Inbound_StaleUpdate \<and>
            syncStateAndRecreateUpdate error params prev acts sv
              (w\<lparr>sentMessages :=
                   sentMessages w @ [(outUpdate applied, map_option latestUpdate prev)]\<rparr>) =
              (Threw m, w2) \<longrightarrow>
              r = Threw m \<and> w' = w2) \<and>
         (\<exists>syncSaves finalSaves.
            saveCalls w' = saveCalls w @ syncSaves @ finalSaves \<and>
            length syncSaves \<le> 1 \<and> length finalSaves \<le> 1 \<and>
            (syncSaves \<noteq> [] \<longrightarrow>
               (\<exists>error. counterpartyReply sv (take (Suc (length (sentMessages w))) (sentMessages w'))
                           = Inl error \<and> inMessage error = Inbound_StaleUpdate)) \<and>
            (finalSaves \<noteq> [] \<longrightarrow>
               (\<exists>cu cp prev' acts' applied'.
                  validateParamsAndApplyUpdate sv params prev' acts' = Inr applied' \<and>
                  counterpartyReply sv (sentMessages w') = Inr (cu, cp) \<and>
                  validateChannelSignatures sv (outUpdatedChannel applied')
                    (aliceSignature cu) (bobSignature cu) = None \<and>
                  finalSaves =
                    [((outUpdatedChannel applied')\<lparr>latestUpdate := cu\<rparr>, outUpdatedTransfer applied')] \<and>
                  (r = Returned (Inr \<lparr>updatedChannel = (outUpdatedChannel applied')\<lparr>latestUpdate := cu\<rparr>,
                                      updatedTransfers = outUpdatedActiveTransfers applied',
                                      updatedTransfer = outUpdatedTransfer applied'\<rparr>) \<or>
                   (\<exists>e. r = Returned (Inl e) \<and> outMessage e = Outbound_SaveChannelFailed)))) \<and>
            ((\<exists>v. r = Returned (Inr v)) \<longrightarrow> finalSaves \<noteq> [])) \<and>
         (saveCalls w' = saveCalls w \<longrightarrow> channels w' = channels w)"
proof (intro conjI)
  show "\<forall>acts prev e.
            extractContextFromStore sv w (pChannelAddress params) = Inr (acts, prev) \<and>
            validateParamsAndApplyUpdate sv params prev acts = Inl e \<longrightarrow>
              r = Returned (Inl e) \<and> w' = w"
    using run outbound_validation_failure[of sv w params] by fastforce
next
  show "\<forall>acts prev applied error.
            extractContextFromStore sv w (pChannelAddress params) = Inr (acts, prev) \<and>
            validateParamsAndApplyUpdate sv params prev acts = Inr applied \<and>
            counterpartyReply sv
              (sentMessages w @ [(outUpdate applied, map_option latestUpdate prev)]) = Inl error \<and>
            inMessage error \<noteq> Inbound_StaleUpdate \<longrightarrow>
              r = Returned (Inl \<lparr>outMessage = (if inMessage error = Messaging_Timeout
                                                 then Outbound_CounterpartyOffline
                                                 else Outbound_CounterpartyFailure),
                                  outParams = params, outState = prev,
                                  outContext = [(''counterpartyError'', CtxMessage (inMessage error))]\<rparr>) \<and>
              w' = w\<lparr>sentMessages :=
                        sentMessages w @ [(outUpdate applied, map_option latestUpdate prev)]\<rparr>"
  proof (intro allI impI, elim conjE)
    fix acts prev and applied :: outboundApplied and error
    assume a: "extractContextFromStore sv w (pChannelAddress params) = Inr (acts, prev)"
      "validateParamsAndApplyUpdate sv params prev acts = Inr applied"
      "counterpartyReply sv
              (sentMessages w @ [(outUpdate applied, map_option latestUpdate prev)]) = Inl error"
      "inMessage error \<noteq> Inbound_StaleUpdate"
    from outbound_first_error[OF a] run
    show "r = Returned (Inl \<lparr>outMessage = (if inMessage error = Messaging_Timeout
                                                 then Outbound_CounterpartyOffline
                                                 else Outbound_CounterpartyFailure),
                                  outParams = params, outState = prev,
                                  outContext = [(''counterpartyError'', CtxMessage (inMessage error))]\<rparr>) \<and>
              w' = w\<lparr>sentMessages :=
                        sentMessages w @ [(outUpdate applied, map_option latestUpdate prev)]\<rparr>"
      by simp
  qed
next
  show "\<forall>acts prev applied cu cp m.
            extractContextFromStore sv w (pChannelAddress params) = Inr (acts, prev) \<and>
            validateParamsAndApplyUpdate sv params prev acts = Inr applied \<and>
            counterpartyReply sv
              (sentMessages w @ [(outUpdate applied, map_option latestUpdate prev)]) = Inr (cu, cp) \<and>
            validateChannelSignatures sv (outUpdatedChannel applied)
              (aliceSignature cu) (bobSignature cu) = Some m \<longrightarrow>
              r = Returned (Inl \<lparr>outMessage = Outbound_BadSignatures, outParams = params,
                                  outState = prev,
                                  outContext = [(''recoveryError'', CtxText m)]\<rparr>) \<and>
              w' = w\<lparr>sentMessages :=
                        sentMessages w @ [(outUpdate applied, map_option latestUpdate prev)]\<rparr>"
  proof (intro allI impI, elim conjE)
    fix acts prev and applied :: outboundApplied and cu cp m
    assume a: "extractContextFromStore sv w (pChannelAddress params) = Inr (acts, prev)"
      "validateParamsAndApplyUpdate sv params prev acts = Inr applied"
      "counterpartyReply sv
              (sentMessages w @ [(outUpdate applied, map_option latestUpdate prev)]) = Inr (cu, cp)"
      "validateChannelSignatures sv (outUpdatedChannel applied)
              (aliceSignature cu) (bobSignature cu) = Some m"
    from outbound_first_bad_signatures[OF a] run
    show "r = Returned (Inl \<lparr>outMessage = Outbound_BadSignatures, outParams = params,
                                  outState = prev,
                                  outContext = [(''recoveryError'', CtxText m)]\<rparr>) \<and>
              w' = w\<lparr>sentMessages :=
                        sentMessages w @ [(outUpdate applied, map_option latestUpdate prev)]\<rparr>"
      by simp
  qed
next
  show "\<forall>acts prev applied error regenerated syncedChannel w2.
            extractContextFromStore sv w (pChannelAddress params) = Inr (acts, prev) \<and>
            validateParamsAndApplyUpdate sv params prev acts = Inr applied \<and>
            counterpartyReply sv
              (sentMessages w @ [(outUpdate applied, map_option latestUpdate prev)]) = Inl error \<and>
            inMessage error = Inbound_StaleUpdate \<and>
            syncStateAndRecreateUpdate error params prev acts sv
              (w\<lparr>sentMessages :=
                   sentMessages w @ [(outUpdate applied, map_option latestUpdate prev)]\<rparr>) =
              (Returned (Inr (regenerated, syncedChannel)), w2) \<longrightarrow>
              (\<exists>syncedTransfer. saveCalls w2 = saveCalls w @ [(syncedChannel, syncedTransfer)]) \<and>
              (\<forall>error2.
                 counterpartyReply sv
                   (sentMessages w2 @
                      [(outUpdate regenerated, Some (latestUpdate (outUpdatedChannel regenerated)))]) =
                   Inl error2 \<longrightarrow>
                   r = Returned (Inl \<lparr>outMessage = (if inMessage error2 = Messaging_Timeout
                                                      then Outbound_CounterpartyOffline
                                                      else Outbound_CounterpartyFailure),
                                       outParams = params, outState = Some syncedChannel,
                                       outContext =
                                         [(''counterpartyError'', CtxMessage (inMessage error2))]\<rparr>) \<and>
                   w' = w2\<lparr>sentMessages := sentMessages w2 @
                              [(outUpdate regenerated,
                                Some (latestUpdate (outUpdatedChannel regenerated)))]\<rparr>) \<and>
              (\<forall>cu cp m.
                 counterpartyReply sv
                   (sentMessages w2 @
                      [(outUpdate regenerated, Some (latestUpdate (outUpdatedChannel regenerated)))]) =
                   Inr (cu, cp) \<and>
                 validateChannelSignatures sv (outUpdatedChannel regenerated)
                   (aliceSignature cu) (bobSignature cu) = Some m \<longrightarrow>
                   r = Returned (Inl \<lparr>outMessage = Outbound_BadSignatures, outParams = params,
                                       outState = Some syncedChannel,
                                       outContext = [(''recoveryError'', CtxText m)]\<rparr>) \<and>
                   w' = w2\<lparr>sentMessages := sentMessages w2 @
                              [(outUpdate regenerated,
                                Some (latestUpdate (outUpdatedChannel regenerated)))]\<rparr>)"
  proof (intro allI impI, elim conjE)
    fix acts prev and applied :: outboundApplied and error and regenerated :: outboundApplied
      and syncedChannel w2
    let ?second = "(outUpdate regenerated, Some (latestUpdate (outUpdatedChannel regenerated)))"
    assume a: "extractContextFromStore sv w (pChannelAddress params) = Inr (acts, prev)"
      "validateParamsAndApplyUpdate sv params prev acts = Inr applied"
      "counterpartyReply sv
              (sentMessages w @ [(outUpdate applied, map_option latestUpdate prev)]) = Inl error"
      "inMessage error = Inbound_StaleUpdate"
      "syncStateAndRecreateUpdate error params prev acts sv
              (w\<lparr>sentMessages :=
                   sentMessages w @ [(outUpdate applied, map_option latestUpdate prev)]\<rparr>) =
              (Returned (Inr (regenerated, syncedChannel)), w2)"
    from outbound_retry[OF a] run
    have fin: "outboundFinish sv (w2\<lparr>sentMessages := sentMessages w2 @ [?second]\<rparr>) params
                 (counterpartyReply sv (sentMessages w2 @ [?second]))
                 (Some syncedChannel) regenerated = (r, w')"
      by simp
    from syncStateAndRecreateUpdate_success[OF a(5)]
    have s: "\<exists>syncedTransfer. saveCalls w2 = saveCalls w @ [(syncedChannel, syncedTransfer)]"
      by auto
    show "(\<exists>syncedTransfer. saveCalls w2 = saveCalls w @ [(syncedChannel, syncedTransfer)]) \<and>
              (\<forall>error2.
                 counterpartyReply sv (sentMessages w2 @ [?second]) = Inl error2 \<longrightarrow>
                   r = Returned (Inl \<lparr>outMessage = (if inMessage error2 = Messaging_Timeout
                                                      then Outbound_CounterpartyOffline
                                                      else Outbound_CounterpartyFailure),
                                       outParams = params, outState = Some syncedChannel,
                                       outContext =
                                         [(''counterpartyError'', CtxMessage (inMessage error2))]\<rparr>) \<and>
                   w' = w2\<lparr>sentMessages := sentMessages w2 @ [?second]\<rparr>) \<and>
              (\<forall>cu cp m.
                 counterpartyReply sv (sentMessages w2 @ [?second]) = Inr (cu, cp) \<and>
                 validateChannelSignatures sv (outUpdatedChannel regenerated)
                   (aliceSignature cu) (bobSignature cu) = Some m \<longrightarrow>
                   r = Returned (Inl \<lparr>outMessage = Outbound_BadSignatures, outParams = params,
                                       outState = Some syncedChannel,
                                       outContext = [(''recoveryError'', CtxText m)]\<rparr>) \<and>
                   w' = w2\<lparr>sentMessages := sentMessages w2 @ [?second]\<rparr>)"
      using s fin by (auto simp: outboundFinish_error outboundFinish_bad_signatures)
  qed
next
  show "\<forall>acts prev applied error e w2.
            extractContextFromStore sv w (pChannelAddress params) = Inr (acts, prev) \<and>
            validateParamsAndApplyUpdate sv params prev acts = Inr applied \<and>
            counterpartyReply sv
              (sentMessages w @ [(outUpdate applied, map_option latestUpdate prev)]) = Inl error \<and>
            inMessage error = Inbound_StaleUpdate \<and>
            syncStateAndRecreateUpdate error params prev acts sv
              (w\<lparr>sentMessages :=
                   sentMessages w @ [(outUpdate applied, map_option latestUpdate prev)]\<rparr>) =
              (Returned (Inl e), w2) \<longrightarrow>
              r = Returned (Inl e) \<and> w' = w2"
  proof (intro allI impI, elim conjE)
    fix acts prev and applied :: outboundApplied and error e w2
    assume a: "extractContextFromStore sv w (pChannelAddress params) = Inr (acts, prev)"
      "validateParamsAndApplyUpdate sv params prev acts = Inr applied"
      "counterpartyReply sv
              (sentMessages w @ [(outUpdate applied, map_option latestUpdate prev)]) = Inl error"
      "inMessage error = Inbound_StaleUpdate"
      and sync: "syncStateAndRecreateUpdate error params prev acts sv
              (w\<lparr>sentMessages :=
                   sentMessages w @ [(outUpdate applied, map_option latestUpdate prev)]\<rparr>) =
              (Returned (Inl e), w2)"
    from outbound_sync_failure(1)[OF a sync] run show "r = Returned (Inl e) \<and> w' = w2" by simp
  qed
next
  show "\<forall>acts prev applied error m w2.
            extractContextFromStore sv w (pChannelAddress params) = Inr (acts, prev) \<and>
            validateParamsAndApplyUpdate sv params prev acts = Inr applied \<and>
            counterpartyReply sv
              (sentMessages w @ [(outUpdate applied, map_option latestUpdate prev)]) = Inl error \<and>
            inMessage error = Inbound_StaleUpdate \<and>
            syncStateAndRecreateUpdate error params prev acts sv
              (w\<lparr>sentMessages :=
                   sentMessages w @ [(outUpdate applied, map_option latestUpdate prev)]\<rparr>) =
              (Threw m, w2) \<longrightarrow>
              r = Threw m \<and> w' = w2"
  proof (intro allI impI, elim conjE)
    fix acts prev and applied :: outboundApplied and error m w2
    assume a: "extractContextFromStore sv w (pChannelAddress params) = Inr (acts, prev)"
      "validateParamsAndApplyUpdate sv params prev acts = Inr applied"
      "counterpartyReply sv
              (sentMessages w @ [(outUpdate applied, map_option latestUpdate prev)]) = Inl error"
      "inMessage error = Inbound_StaleUpdate"
      and sync: "syncStateAndRecreateUpdate error params prev acts sv
              (w\<lparr>sentMessages :=
                   sentMessages w @ [(outUpdate applied, map_option latestUpdate prev)]\<rparr>) =
              (Threw m, w2)"
    from outbound_sync_failure(2)[OF a sync] run show "r = Threw m \<and> w' = w2" by simp
  qed
next
  from outbound_saves_shape[OF run]
  show "\<exists>syncSaves finalSaves.
            saveCalls w' = saveCalls w @ syncSaves @ finalSaves \<and>
            length syncSaves \<le> 1 \<and> length finalSaves \<le> 1 \<and>
            (syncSaves \<noteq> [] \<longrightarrow>
               (\<exists>error. counterpartyReply sv (take (Suc (length (sentMessages w))) (sentMessages w'))
                           = Inl error \<and> inMessage error = Inbound_StaleUpdate)) \<and>
            (finalSaves \<noteq> [] \<longrightarrow>
               (\<exists>cu cp prev' acts' applied'.
                  validateParamsAndApplyUpdate sv params prev' acts' = Inr applied' \<and>
                  counterpartyReply sv (sentMessages w') = Inr (cu, cp) \<and>
                  validateChannelSignatures sv (outUpdatedChannel applied')
                    (aliceSignature cu) (bobSignature cu) = None \<and>
                  finalSaves =
                    [((outUpdatedChannel applied')\<lparr>latestUpdate := cu\<rparr>, outUpdatedTransfer applied')] \<and>
                  (r = Returned (Inr \<lparr>updatedChannel = (outUpdatedChannel applied')\<lparr>latestUpdate := cu\<rparr>,
                                      updatedTransfers = outUpdatedActiveTransfers applied',
                                      updatedTransfer = outUpdatedTransfer applied'\<rparr>) \<or>
                   (\<exists>e. r = Returned (Inl e) \<and> outMessage e = Outbound_SaveChannelFailed)))) \<and>
            ((\<exists>v. r = Returned (Inr v)) \<longrightarrow> finalSaves \<noteq> [])"
    by (rule conjunct1)
next
  from outbound_saves_shape[OF run]
  show "saveCalls w' = saveCalls w \<longrightarrow> channels w' = channels w"
    by (rule conjunct2)
qed

lemmas engine_defs = outbound_def extractContextFromStore_def nonceOrZero_def sendProtocolMessage_def
  outboundFinish_def saveChannelState_def syncStateAndRecreateUpdate_def syncState_def
  outboundSyncError_def truthy_def Let_def

text \<open>
  Witness for C4 amended, on a store holding the channel at nonce 5: a refused proposal;
  a round trip that times out; signatures that do not verify; a countersigned proposal;
  a sync followed by a retried round trip that times out; a peer too far ahead to sync;
  and, on an empty store, a stale answer to a setup.
\<close>

theorem outbound_persistence_witness:
  "outbound (sampleParams Create) rejectingServices (worldAt 5) =
     (Returned (Inl \<lparr>outMessage = Text ''Transfer definition returned false'',
                     outParams = sampleParams Create, outState = Some (sampleChannel 5),
                     outContext = []\<rparr>), worldAt 5) \<and>
   outbound (sampleParams Deposit) timeoutServices (worldAt 5) =
     (Returned (Inl \<lparr>outMessage = Outbound_CounterpartyOffline, outParams = sampleParams Deposit,
                     outState = Some (sampleChannel 5),
                     outContext = [(''counterpartyError'', CtxMessage Messaging_Timeout)]\<rparr>),
      (worldAt 5)\<lparr>sentMessages := [(sampleUpdate Deposit 6 (Some ''sigA'') None,
                                      Some (sampleUpdate Deposit 5 (Some ''sigA'') (Some ''sigB'')))]\<rparr>) \<and>
   outbound (sampleParams Deposit) badSignatureServices (worldAt 5) =
     (Returned (Inl \<lparr>outMessage = Outbound_BadSignatures, outParams = sampleParams Deposit,
                     outState = Some (sampleChannel 5),
                     outContext = [(''recoveryError'', CtxText ''Could not recover signers'')]\<rparr>),
      (worldAt 5)\<lparr>sentMessages := [(sampleUpdate Deposit 6 (Some ''sigA'') None,
                                      Some (sampleUpdate Deposit 5 (Some ''sigA'') (Some ''sigB'')))]\<rparr>) \<and>
   fst (outbound (sampleParams Deposit) ackingServices (worldAt 5)) =
     Returned (Inr \<lparr>updatedChannel =
                      (sampleChannel 6)\<lparr>latestUpdate := sampleUpdate Deposit 6 (Some ''sigA'') (Some ''sigB'')\<rparr>,
                    updatedTransfers = [], updatedTransfer = None\<rparr>) \<and>
   saveCalls (snd (outbound (sampleParams Deposit) ackingServices (worldAt 5))) =
     [((sampleChannel 6)\<lparr>latestUpdate := sampleUpdate Deposit 6 (Some ''sigA'') (Some ''sigB'')\<rparr>, None)] \<and>
   outbound (sampleParams Deposit) (acceptingServices 6) (worldAt 5) =
     (Returned (Inl \<lparr>outMessage = Outbound_CounterpartyOffline, outParams = sampleParams Deposit,
                     outState = Some ((sampleChannel 6)
                        \<lparr>latestUpdate := sampleUpdate Deposit 6 (Some ''sigA'') (Some ''sigB'')\<rparr>),
                     outContext = [(''counterpartyError'', CtxMessage Messaging_Timeout)]\<rparr>),
      (worldAt 5)
        \<lparr>channels := (channels (worldAt 5))
            (''0xC'' := Some ((sampleChannel 6)
                        \<lparr>latestUpdate := sampleUpdate Deposit 6 (Some ''sigA'') (Some ''sigB'')\<rparr>)),
         saveCalls := [((sampleChannel 6)
                        \<lparr>latestUpdate := sampleUpdate Deposit 6 (Some ''sigA'') (Some ''sigB'')\<rparr>, None)],
         sentMessages := [(sampleUpdate Deposit 6 (Some ''sigA'') None,
                           Some (sampleUpdate Deposit 5 (Some ''sigA'') (Some ''sigB''))),
                          (sampleUpdate Deposit 7 (Some ''sigA'') None,
                           Some (sampleUpdate Deposit 7 (Some ''sigA'') (Some ''sigB'')))]\<rparr>) \<and>
   outbound (sampleParams Deposit) (acceptingServices 20) (worldAt 5) =
     (Returned (Inl \<lparr>outMessage = Outbound_RestoreNeeded, outParams = sampleParams Deposit,
                     outState = Some (sampleChannel 5),
                     outContext =
                       [(''counterpartyUpdate'',
                         CtxUpdate (Some (sampleUpdate Deposit 20 (Some ''sigA'') (Some ''sigB'')))),
                        (''latestNonce'', CtxNumber 5)]\<rparr>),
      (worldAt 5)\<lparr>sentMessages := [(sampleUpdate Deposit 6 (Some ''sigA'') None,
                                      Some (sampleUpdate Deposit 5 (Some ''sigA'') (Some ''sigB'')))]\<rparr>) \<and>
   outbound (sampleParams Setup) (acceptingServices 5) emptyWorld =
     (Threw ''TypeError: Cannot read property nonce of undefined'',
      emptyWorld\<lparr>sentMessages := [(sampleUpdate Setup 1 (Some ''sigA'') None, None)]\<rparr>)"
proof -
  let ?prev = "Some (sampleChannel 5)"
  let ?applied = "\<lparr>outUpdate = sampleUpdate Deposit 6 (Some ''sigA'') None,
                    outUpdatedChannel = sampleChannel 6, outUpdatedTransfer = None,
                    outUpdatedActiveTransfers = []\<rparr>"
  let ?timeout = "\<lparr>inMessage = Messaging_Timeout, inUpdate = None, inState = None, inContext = []\<rparr>"
  let ?reject = "\<lparr>outMessage = Text ''Transfer definition returned false'',
                   outParams = sampleParams Create, outState = ?prev, outContext = []\<rparr>"
  have run: "\<And>p s. outbound p s (worldAt 5) =
               (fst (outbound p s (worldAt 5)), snd (outbound p s (worldAt 5)))"
    by simp
  have ctx: "\<And>s p. getChannelStateError s = (\<lambda>a. None) \<Longrightarrow> getActiveTransfers s = (\<lambda>a. Inr []) \<Longrightarrow>
               extractContextFromStore s (worldAt 5) (pChannelAddress (sampleParams p)) = Inr ([], ?prev)"
    by (simp add: extractContextFromStore_def worldAt_def sampleParams_def emptyWorld_def)
  \<comment> \<open>a refused proposal\<close>
  have c1: "extractContextFromStore rejectingServices (worldAt 5) (pChannelAddress (sampleParams Create)) =
              Inr ([], ?prev)"
    by (rule ctx) (simp_all add: rejectingServices_def acceptingServices_def)
  have v1: "validateParamsAndApplyUpdate rejectingServices (sampleParams Create) ?prev [] = Inl ?reject"
    by (simp add: rejectingServices_def acceptingServices_def)
  note t1 = outbound_persistence[OF run[of "sampleParams Create" rejectingServices],
      THEN conjunct1, rule_format, OF conjI[OF c1 v1]]
  \<comment> \<open>a round trip that times out\<close>
  have c2: "extractContextFromStore timeoutServices (worldAt 5) (pChannelAddress (sampleParams Deposit)) =
              Inr ([], ?prev)"
    by (rule ctx) (simp_all add: timeoutServices_def acceptingServices_def)
  have v2: "validateParamsAndApplyUpdate timeoutServices (sampleParams Deposit) ?prev [] = Inr ?applied"
    by (simp add: timeoutServices_def fixture_defs nonceOrZero_def)
  have r2: "counterpartyReply timeoutServices
              (sentMessages (worldAt 5) @ [(outUpdate ?applied, map_option latestUpdate ?prev)]) =
            Inl ?timeout"
    by (simp add: timeoutServices_def acceptingServices_def)
  have n2: "inMessage ?timeout \<noteq> Inbound_StaleUpdate" by simp
  note t2 = outbound_persistence[OF run[of "sampleParams Deposit" timeoutServices],
      THEN conjunct2, THEN conjunct1, rule_format, OF conjI[OF c2 conjI[OF v2 conjI[OF r2 n2]]]]
  \<comment> \<open>signatures that do not verify\<close>
  let ?cu = "sampleUpdate Deposit 6 (Some ''sigA'') (Some ''sigB'')"
  let ?cp = "Some (sampleUpdate Deposit 5 (Some ''sigA'') (Some ''sigB''))"
  have c3: "extractContextFromStore badSignatureServices (worldAt 5)
              (pChannelAddress (sampleParams Deposit)) = Inr ([], ?prev)"
    by (rule ctx) (simp_all add: badSignatureServices_def ackingServices_def acceptingServices_def)
  have v3: "validateParamsAndApplyUpdate badSignatureServices (sampleParams Deposit) ?prev [] =
              Inr ?applied"
    by (simp add: badSignatureServices_def ackingServices_def fixture_defs nonceOrZero_def)
  have r3: "counterpartyReply badSignatureServices
              (sentMessages (worldAt 5) @ [(outUpdate ?applied, map_option latestUpdate ?prev)]) =
            Inr (?cu, ?cp)"
    by (simp add: badSignatureServices_def ackingServices_def fixture_defs)
  have s3: "validateChannelSignatures badSignatureServices (outUpdatedChannel ?applied)
              (aliceSignature ?cu) (bobSignature ?cu) = Some ''Could not recover signers''"
    by (simp add: badSignatureServices_def)
  note t3 = outbound_persistence[OF run[of "sampleParams Deposit" badSignatureServices],
      THEN conjunct2, THEN conjunct2, THEN conjunct1, rule_format,
      OF conjI[OF c3 conjI[OF v3 conjI[OF r3 s3]]]]
  \<comment> \<open>a countersigned proposal\<close>
  have t4: "fst (outbound (sampleParams Deposit) ackingServices (worldAt 5)) =
     Returned (Inr \<lparr>updatedChannel =
                      (sampleChannel 6)\<lparr>latestUpdate := sampleUpdate Deposit 6 (Some ''sigA'') (Some ''sigB'')\<rparr>,
                    updatedTransfers = [], updatedTransfer = None\<rparr>) \<and>
     saveCalls (snd (outbound (sampleParams Deposit) ackingServices (worldAt 5))) =
     [((sampleChannel 6)\<lparr>latestUpdate := sampleUpdate Deposit 6 (Some ''sigA'') (Some ''sigB'')\<rparr>, None)]"
    by (simp add: engine_defs fixture_defs ackingServices_def)
  \<comment> \<open>a sync, then a retried round trip that times out\<close>
  let ?stale = "\<lparr>inMessage = Inbound_StaleUpdate, inUpdate = Some ?cu, inState = None,
                  inContext = []\<rparr>"
  let ?synced = "(sampleChannel 6)\<lparr>latestUpdate := ?cu\<rparr>"
  let ?regenerated = "\<lparr>outUpdate = sampleUpdate Deposit 7 (Some ''sigA'') None,
                        outUpdatedChannel = sampleChannel 7, outUpdatedTransfer = None,
                        outUpdatedActiveTransfers = []\<rparr>"
  let ?w1 = "(worldAt 5)\<lparr>sentMessages :=
               sentMessages (worldAt 5) @ [(outUpdate ?applied, map_option latestUpdate ?prev)]\<rparr>"
  let ?w2 = "(worldAt 5)
        \<lparr>channels := (channels (worldAt 5))(''0xC'' := Some ?synced),
         saveCalls := [(?synced, None)],
         sentMessages := [(sampleUpdate Deposit 6 (Some ''sigA'') None, ?cp)]\<rparr>"
  have c5: "extractContextFromStore (acceptingServices 6) (worldAt 5)
              (pChannelAddress (sampleParams Deposit)) = Inr ([], ?prev)"
    by (rule ctx) (simp_all add: acceptingServices_def)
  have v5: "validateParamsAndApplyUpdate (acceptingServices 6) (sampleParams Deposit) ?prev [] =
              Inr ?applied"
    by (simp add: fixture_defs nonceOrZero_def)
  have r5: "counterpartyReply (acceptingServices 6)
              (sentMessages (worldAt 5) @ [(outUpdate ?applied, map_option latestUpdate ?prev)]) =
            Inl ?stale"
    by (simp add: fixture_defs)
  have st5: "inMessage ?stale = Inbound_StaleUpdate" by simp
  have sy5: "syncStateAndRecreateUpdate ?stale (sampleParams Deposit) ?prev [] (acceptingServices 6) ?w1 =
               (Returned (Inr (?regenerated, ?synced)), ?w2)"
    by (simp add: engine_defs fixture_defs)
  have r6: "counterpartyReply (acceptingServices 6)
              (sentMessages ?w2 @
                 [(outUpdate ?regenerated, Some (latestUpdate (outUpdatedChannel ?regenerated)))]) =
            Inl ?timeout"
    by (simp add: fixture_defs)
  note t5 = outbound_persistence[OF run[of "sampleParams Deposit" "acceptingServices 6"],
      THEN conjunct2, THEN conjunct2, THEN conjunct2, THEN conjunct1, rule_format,
      OF conjI[OF c5 conjI[OF v5 conjI[OF r5 conjI[OF st5 sy5]]]],
      THEN conjunct2, THEN conjunct1, rule_format, OF r6]
  \<comment> \<open>a peer that is too far ahead to sync\<close>
  let ?stale20 = "\<lparr>inMessage = Inbound_StaleUpdate,
                    inUpdate = Some (sampleUpdate Deposit 20 (Some ''sigA'') (Some ''sigB'')),
                    inState = None, inContext = []\<rparr>"
  let ?restore = "\<lparr>outMessage = Outbound_RestoreNeeded, outParams = sampleParams Deposit,
                    outState = ?prev,
                    outContext =
                      [(''counterpartyUpdate'',
                        CtxUpdate (Some (sampleUpdate Deposit 20 (Some ''sigA'') (Some ''sigB'')))),
                       (''latestNonce'', CtxNumber 5)]\<rparr>"
  have c6: "extractContextFromStore (acceptingServices 20) (worldAt 5)
              (pChannelAddress (sampleParams Deposit)) = Inr ([], ?prev)"
    by (rule ctx) (simp_all add: acceptingServices_def)
  have v6: "validateParamsAndApplyUpdate (acceptingServices 20) (sampleParams Deposit) ?prev [] =
              Inr ?applied"
    by (simp add: fixture_defs nonceOrZero_def)
  have r7: "counterpartyReply (acceptingServices 20)
              (sentMessages (worldAt 5) @ [(outUpdate ?applied, map_option latestUpdate ?prev)]) =
            Inl ?stale20"
    by (simp add: fixture_defs)
  have st6: "inMessage ?stale20 = Inbound_StaleUpdate" by simp
  have sy6: "syncStateAndRecreateUpdate ?stale20 (sampleParams Deposit) ?prev []
               (acceptingServices 20) ?w1 = (Returned (Inl ?restore), ?w1)"
    by (simp add: engine_defs fixture_defs)
  note t6 = outbound_persistence[OF run[of "sampleParams Deposit" "acceptingServices 20"],
      THEN conjunct2, THEN conjunct2, THEN conjunct2, THEN conjunct2, THEN conjunct1, rule_format,
      OF conjI[OF c6 conjI[OF v6 conjI[OF r7 conjI[OF st6 sy6]]]]]
  \<comment> \<open>a stale answer to a setup, without a stored channel\<close>
  let ?none = "None :: fullChannelState option"
  let ?proposed = "\<lparr>outUpdate = sampleUpdate Setup 1 (Some ''sigA'') None,
                  outUpdatedChannel = sampleChannel 1, outUpdatedTransfer = None,
                  outUpdatedActiveTransfers = []\<rparr>"
  let ?stale5 = "\<lparr>inMessage = Inbound_StaleUpdate,
                   inUpdate = Some (sampleUpdate Deposit 5 (Some ''sigA'') (Some ''sigB'')),
                   inState = None, inContext = []\<rparr>"
  let ?e1 = "emptyWorld\<lparr>sentMessages :=
               sentMessages emptyWorld @ [(outUpdate ?proposed, map_option latestUpdate ?none)]\<rparr>"
  have run0: "outbound (sampleParams Setup) (acceptingServices 5) emptyWorld =
               (fst (outbound (sampleParams Setup) (acceptingServices 5) emptyWorld),
                snd (outbound (sampleParams Setup) (acceptingServices 5) emptyWorld))"
    by simp
  have c7: "extractContextFromStore (acceptingServices 5) emptyWorld
              (pChannelAddress (sampleParams Setup)) = Inr ([], ?none)"
    by (simp add: extractContextFromStore_def acceptingServices_def emptyWorld_def)
  have v7: "validateParamsAndApplyUpdate (acceptingServices 5) (sampleParams Setup) ?none [] =
              Inr ?proposed"
    by (simp add: fixture_defs nonceOrZero_def)
  have r8: "counterpartyReply (acceptingServices 5)
              (sentMessages emptyWorld @ [(outUpdate ?proposed, map_option latestUpdate ?none)]) =
            Inl ?stale5"
    by (simp add: fixture_defs)
  have st7: "inMessage ?stale5 = Inbound_StaleUpdate" by simp
  have sy7: "syncStateAndRecreateUpdate ?stale5 (sampleParams Setup) ?none []
               (acceptingServices 5) ?e1 =
             (Threw ''TypeError: Cannot read property nonce of undefined'', ?e1)"
    by (simp add: engine_defs fixture_defs)
  note t7 = outbound_persistence[OF run0,
      THEN conjunct2, THEN conjunct2, THEN conjunct2, THEN conjunct2, THEN conjunct2,
      THEN conjunct1, rule_format,
      OF conjI[OF c7 conjI[OF v7 conjI[OF r8 conjI[OF st7 sy7]]]]]
  from t1 t2 t3 t4 t5 t6 t7 show ?thesis
    by (simp add: prod_eq_iff fixture_defs)
qed

subsection \<open>Nonces of applied updates\<close>

lemma returnError_fails:
  "returnError update inbox reason prevUpdate state ctx w \<noteq> (Returned (Inr applied), w')"
  by (simp add: returnError_def Let_def)

lemma inboundApply_success:
  assumes "inboundApply update inbox previousState activeTransfers sv w = (Returned (Inr applied), w')"
  shows "validateAndApplyInboundUpdate sv update previousState activeTransfers = Inr applied \<and>
         saveCalls w' = saveCalls w @ [(inUpdatedChannel applied, inUpdatedTransfer applied)]"
proof (cases "validateAndApplyInboundUpdate sv update previousState activeTransfers")
  case (Inl e)
  with assms show ?thesis by (simp add: inboundApply_def returnError_fails)
next
  case (Inr a)
  obtain res w1 where s: "saveChannelState sv w (inUpdatedChannel a) (inUpdatedTransfer a) = (res, w1)"
    by (cases "saveChannelState sv w (inUpdatedChannel a) (inUpdatedTransfer a)") auto
  from saveChannelState_effect[OF s] assms Inr s show ?thesis
    by (cases res) (auto simp: inboundApply_def returnError_fails)
qed

lemma specValidateAndApplyInboundUpdate_nonce:
  assumes "specValidateAndApplyInboundUpdate nonceError rejects derive u prev acts = Inr a"
  shows "uNonce u = nonceOrZero prev + 1 \<and> nonce (inUpdatedChannel a) = uNonce u"
  using assms
  by (auto simp: specValidateAndApplyInboundUpdate_def Let_def split: if_splits option.splits)

lemma specValidateParamsAndApplyUpdate_nonce:
  assumes "specValidateParamsAndApplyUpdate rejects derive p prev acts = Inr a"
  shows "uNonce (outUpdate a) = nonceOrZero prev + 1 \<and>
         nonce (outUpdatedChannel a) = uNonce (outUpdate a)"
  using assms
  by (auto simp: specValidateParamsAndApplyUpdate_def Let_def split: option.splits)

lemma extractContextFromStore_stored:
  assumes "extractContextFromStore sv w addr = Inr (acts, stored)"
  shows "stored = channels w addr"
  using assms by (auto simp: extractContextFromStore_def split: option.splits sum.splits)

lemma inbound_success_cases:
  assumes run: "inbound update previousUpdate inbox sv w = (Returned (Inr applied), w')"
  shows "\<exists>acts.
           (uNonce update - nonceOrZero (channels w (uChannelAddress update)) = 1 \<and>
            validateAndApplyInboundUpdate sv update (channels w (uChannelAddress update)) acts =
              Inr applied \<and>
            saveCalls w' = saveCalls w @ [(inUpdatedChannel applied, inUpdatedTransfer applied)]) \<or>
           (uNonce update - nonceOrZero (channels w (uChannelAddress update)) = 2 \<and>
            (\<exists>peerPrevious synced.
               previousUpdate = Some peerPrevious \<and>
               validateAndApplyInboundUpdate sv peerPrevious
                 (channels w (uChannelAddress update)) acts = Inr synced \<and>
               validateAndApplyInboundUpdate sv update (Some (inUpdatedChannel synced))
                 (inUpdatedActiveTransfers synced) = Inr applied \<and>
               saveCalls w' = saveCalls w @
                 [(inUpdatedChannel synced, inUpdatedTransfer synced),
                  (inUpdatedChannel applied, inUpdatedTransfer applied)]))"
proof (cases "extractContextFromStore sv w (uChannelAddress update)")
  case (Inl m)
  with run show ?thesis by (simp add: inbound_def returnError_fails)
next
  case (Inr ctx)
  obtain acts stored where ctx: "ctx = (acts, stored)" by (cases ctx) auto
  from extractContextFromStore_stored[OF Inr[unfolded ctx]]
  have stored: "stored = channels w (uChannelAddress update)" .
  let ?diff = "uNonce update - nonceOrZero stored"
  from run Inr ctx have range: "?diff = 1 \<or> ?diff = 2"
    by (auto simp: inbound_def Let_def returnError_fails split: if_splits option.splits)
  then show ?thesis
  proof
    assume d1: "?diff = 1"
    with run Inr ctx have "inboundApply update inbox stored acts sv w = (Returned (Inr applied), w')"
      by (simp add: inbound_def Let_def)
    from inboundApply_success[OF this] d1 stored show ?thesis by auto
  next
    assume d2: "?diff = 2"
    with run Inr ctx obtain peerPrevious where pp: "previousUpdate = Some peerPrevious"
      by (cases previousUpdate) (auto simp: inbound_def Let_def returnError_fails)
    obtain res w1 where sync: "syncState peerPrevious stored acts
        (inboundSyncError peerPrevious stored) sv w = (res, w1)"
      by (cases "syncState peerPrevious stored acts (inboundSyncError peerPrevious stored) sv w") auto
    with run Inr ctx d2 pp obtain synced :: inboundApplied where res: "res = Inr synced"
      by (cases res) (auto simp: inbound_def Let_def returnError_fails)
    from run Inr ctx d2 pp sync res
    have ap: "inboundApply update inbox (Some (inUpdatedChannel synced))
                (inUpdatedActiveTransfers synced) sv w1 = (Returned (Inr applied), w')"
      by (simp add: inbound_def Let_def)
    from syncState_effect[OF sync] res
    have sv1: "validateAndApplyInboundUpdate sv peerPrevious stored acts = Inr synced"
      and sc1: "saveCalls w1 = saveCalls w @ [(inUpdatedChannel synced, inUpdatedTransfer synced)]"
      by auto
    from inboundApply_success[OF ap]
    have v2: "validateAndApplyInboundUpdate sv update (Some (inUpdatedChannel synced))
                (inUpdatedActiveTransfers synced) = Inr applied"
      and sc2: "saveCalls w' = saveCalls w1 @ [(inUpdatedChannel applied, inUpdatedTransfer applied)]"
      by auto
    from d2 pp sv1 v2 sc1 sc2 stored show ?thesis by auto
  qed
qed

lemma outboundFinish_success:
  assumes "outboundFinish sv w params counterpartyResult previousState applied =
             (Returned (Inr res), w')"
  shows "\<exists>cu cp. counterpartyResult = Inr (cu, cp) \<and>
           updatedChannel res = (outUpdatedChannel applied)\<lparr>latestUpdate := cu\<rparr> \<and>
           updatedTransfer res = outUpdatedTransfer applied \<and>
           saveCalls w' = saveCalls w @ [(updatedChannel res, updatedTransfer res)]"
proof -
  from outboundFinish_effect[OF assms] have "saveCalls w' \<noteq> saveCalls w" by auto
  from outboundFinish_save[OF assms this] show ?thesis by auto
qed

lemma outbound_success_cases:
  assumes run: "outbound params sv w = (Returned (Inr res), w')"
  shows "\<exists>acts.
           (\<exists>applied cu.
              validateParamsAndApplyUpdate sv params (channels w (pChannelAddress params)) acts =
                Inr applied \<and>
              updatedChannel res = (outUpdatedChannel applied)\<lparr>latestUpdate := cu\<rparr> \<and>
              saveCalls w' = saveCalls w @ [(updatedChannel res, updatedTransfer res)]) \<or>
           (\<exists>counterpartyUpdate synced regenerated cu.
              uNonce counterpartyUpdate - nonceOrZero (channels w (pChannelAddress params)) = 1 \<and>
              validateAndApplyInboundUpdate sv counterpartyUpdate
                (channels w (pChannelAddress params)) acts = Inr synced \<and>
              validateParamsAndApplyUpdate sv params (Some (inUpdatedChannel synced))
                (inUpdatedActiveTransfers synced) = Inr regenerated \<and>
              updatedChannel res = (outUpdatedChannel regenerated)\<lparr>latestUpdate := cu\<rparr> \<and>
              saveCalls w' = saveCalls w @
                [(inUpdatedChannel synced, inUpdatedTransfer synced),
                 (updatedChannel res, updatedTransfer res)])"
proof (cases "extractContextFromStore sv w (pChannelAddress params)")
  case (Inl m)
  with run show ?thesis by (simp add: outbound_def)
next
  case (Inr ctx)
  obtain acts prev where ctx: "ctx = (acts, prev)" by (cases ctx) auto
  from extractContextFromStore_stored[OF Inr[unfolded ctx]]
  have prev: "prev = channels w (pChannelAddress params)" .
  show ?thesis
  proof (cases "validateParamsAndApplyUpdate sv params prev acts")
    case (Inl e)
    with run Inr ctx show ?thesis by (simp add: outbound_def)
  next
    case applied: (Inr applied)
    let ?first = "(outUpdate applied, map_option latestUpdate prev)"
    let ?w1 = "w\<lparr>sentMessages := sentMessages w @ [?first]\<rparr>"
    let ?reply = "counterpartyReply sv (sentMessages w @ [?first])"
    have send1: "sendProtocolMessage sv w (outUpdate applied) (map_option latestUpdate prev) =
                   (?reply, ?w1)"
      by (simp add: sendProtocolMessage_def Let_def)
    show ?thesis
    proof (cases "\<exists>error. ?reply = Inl error \<and> inMessage error = Inbound_StaleUpdate")
      case False
      with run Inr ctx applied send1
      have fin: "outboundFinish sv ?w1 params ?reply prev applied = (Returned (Inr res), w')"
        by (cases ?reply) (auto simp: outbound_def)
      from outboundFinish_success[OF fin] applied prev show ?thesis by auto
    next
      case True
      then obtain error where err: "?reply = Inl error" "inMessage error = Inbound_StaleUpdate"
        by blast
      obtain sr w2 where sync:
        "syncStateAndRecreateUpdate error params prev acts sv ?w1 = (sr, w2)"
        by (cases "syncStateAndRecreateUpdate error params prev acts sv ?w1") auto
      from run Inr ctx applied send1 err sync
      obtain regenerated :: outboundApplied and syncedChannel where
        sr: "sr = Returned (Inr (regenerated, syncedChannel))"
        by (cases sr) (auto simp: outbound_def split: sum.splits prod.splits)
      let ?second = "(outUpdate regenerated, Some (latestUpdate (outUpdatedChannel regenerated)))"
      let ?w3 = "w2\<lparr>sentMessages := sentMessages w2 @ [?second]\<rparr>"
      from syncStateAndRecreateUpdate_success[OF sync[unfolded sr]]
      obtain cu and synced :: inboundApplied where
        sy: "uNonce cu - nonceOrZero prev = 1"
            "validateAndApplyInboundUpdate sv cu prev acts = Inr synced"
            "syncedChannel = inUpdatedChannel synced"
            "validateParamsAndApplyUpdate sv params (Some syncedChannel)
               (inUpdatedActiveTransfers synced) = Inr regenerated"
            "saveCalls w2 = saveCalls ?w1 @ [(syncedChannel, inUpdatedTransfer synced)]"
        by blast
      from outbound_retry[OF Inr[unfolded ctx] applied err sync[unfolded sr]] run
      have fin: "outboundFinish sv ?w3 params (counterpartyReply sv (sentMessages w2 @ [?second]))
                   (Some syncedChannel) regenerated = (Returned (Inr res), w')"
        by simp
      from outboundFinish_success[OF fin] obtain cu2 where
        fs: "updatedChannel res = (outUpdatedChannel regenerated)\<lparr>latestUpdate := cu2\<rparr>"
            "saveCalls w' = saveCalls ?w3 @ [(updatedChannel res, updatedTransfer res)]"
        by blast
      have "uNonce cu - nonceOrZero (channels w (pChannelAddress params)) = 1 \<and>
              validateAndApplyInboundUpdate sv cu
                (channels w (pChannelAddress params)) acts = Inr synced \<and>
              validateParamsAndApplyUpdate sv params (Some (inUpdatedChannel synced))
                (inUpdatedActiveTransfers synced) = Inr regenerated \<and>
              updatedChannel res = (outUpdatedChannel regenerated)\<lparr>latestUpdate := cu2\<rparr> \<and>
              saveCalls w' = saveCalls w @
                [(inUpdatedChannel synced, inUpdatedTransfer synced),
                 (updatedChannel res, updatedTransfer res)]"
        using sy fs prev by simp
      then show ?thesis by blast
    qed
  qed
qed

text \<open>
  Claim C1, with the two validations of the specification. Each validation succeeds only
  on an update whose nonce is the nonce of the state it is applied on (0 without a
  channel) plus 1, and the state it yields has that nonce. When \<open>inbound\<close>
  succeeds, the resulting channel has the nonce of the update, and either the update's
  nonce is the stored nonce plus 1, the update was validated and applied on the stored
  state and the one state saved is the result, or the peer's
  previous update has the stored nonce plus 1, the synced state has the nonce of that
  previous update, the update was validated and applied on the synced state, whose
  nonce is exactly 1 less than the update's, and the states saved are the synced one
  and then the result. When \<open>outbound\<close> succeeds, either the resulting channel has
  the stored nonce plus 1 and is the one state saved, or the counterparty's update has
  the stored nonce plus 1, the synced state has the nonce of that update, the resulting
  channel has the nonce of the synced state plus 1, and the states saved are the synced
  one and then the result.
\<close>

theorem applied_update_nonce_step:
  assumes inboundSpec: "validateAndApplyInboundUpdate sv =
                          specValidateAndApplyInboundUpdate nonceError rejects derive"
      and outboundSpec: "validateParamsAndApplyUpdate sv =
                           specValidateParamsAndApplyUpdate rejectsParams deriveParams"
  shows "(\<forall>u prev acts a.
            validateAndApplyInboundUpdate sv u prev acts = Inr a \<longrightarrow>
              uNonce u = nonceOrZero prev + 1 \<and>
              nonce (inUpdatedChannel a) = nonceOrZero prev + 1) \<and>
         (\<forall>p prev acts a.
            validateParamsAndApplyUpdate sv p prev acts = Inr a \<longrightarrow>
              uNonce (outUpdate a) = nonceOrZero prev + 1 \<and>
              nonce (outUpdatedChannel a) = nonceOrZero prev + 1) \<and>
         (\<forall>update previousUpdate inbox w applied w'.
            inbound update previousUpdate inbox sv w = (Returned (Inr applied), w') \<longrightarrow>
              nonce (inUpdatedChannel applied) = uNonce update \<and>
              ((uNonce update = nonceOrZero (channels w (uChannelAddress update)) + 1 \<and>
                (\<exists>acts. validateAndApplyInboundUpdate sv update
                           (channels w (uChannelAddress update)) acts = Inr applied) \<and>
                saveCalls w' = saveCalls w @ [(inUpdatedChannel applied, inUpdatedTransfer applied)])
               \<or>
               (\<exists>peerPrevious (synced :: inboundApplied).
                  previousUpdate = Some peerPrevious \<and>
                  uNonce peerPrevious = nonceOrZero (channels w (uChannelAddress update)) + 1 \<and>
                  nonce (inUpdatedChannel synced) = uNonce peerPrevious \<and>
                  uNonce update = nonce (inUpdatedChannel synced) + 1 \<and>
                  validateAndApplyInboundUpdate sv update (Some (inUpdatedChannel synced))
                    (inUpdatedActiveTransfers synced) = Inr applied \<and>
                  saveCalls w' = saveCalls w @
                    [(inUpdatedChannel synced, inUpdatedTransfer synced),
                     (inUpdatedChannel applied, inUpdatedTransfer applied)]))) \<and>
         (\<forall>params w res w'.
            outbound params sv w = (Returned (Inr res), w') \<longrightarrow>
              ((nonce (updatedChannel res) = nonceOrZero (channels w (pChannelAddress params)) + 1 \<and>
                saveCalls w' = saveCalls w @ [(updatedChannel res, updatedTransfer res)])
               \<or>
               (\<exists>(counterpartyUpdate :: channelUpdate) syncedChannel syncedTransfer.
                  uNonce counterpartyUpdate =
                    nonceOrZero (channels w (pChannelAddress params)) + 1 \<and>
                  nonce syncedChannel = uNonce counterpartyUpdate \<and>
                  nonce (updatedChannel res) = nonce syncedChannel + 1 \<and>
                  saveCalls w' = saveCalls w @
                    [(syncedChannel, syncedTransfer),
                     (updatedChannel res, updatedTransfer res)])))"
proof (intro conjI allI impI)
  fix u prev acts and a :: inboundApplied
  assume "validateAndApplyInboundUpdate sv u prev acts = Inr a"
  from specValidateAndApplyInboundUpdate_nonce[OF this[unfolded inboundSpec]]
  show "uNonce u = nonceOrZero prev + 1" "nonce (inUpdatedChannel a) = nonceOrZero prev + 1"
    by simp_all
next
  fix p prev acts and a :: outboundApplied
  assume "validateParamsAndApplyUpdate sv p prev acts = Inr a"
  from specValidateParamsAndApplyUpdate_nonce[OF this[unfolded outboundSpec]]
  show "uNonce (outUpdate a) = nonceOrZero prev + 1"
    "nonce (outUpdatedChannel a) = nonceOrZero prev + 1"
    by simp_all
next
  fix update previousUpdate inbox w w' and applied :: inboundApplied
  assume run: "inbound update previousUpdate inbox sv w = (Returned (Inr applied), w')"
  let ?stored = "channels w (uChannelAddress update)"
  from inbound_success_cases[OF run] obtain acts where
    cases: "(uNonce update - nonceOrZero ?stored = 1 \<and>
            validateAndApplyInboundUpdate sv update ?stored acts = Inr applied \<and>
            saveCalls w' = saveCalls w @ [(inUpdatedChannel applied, inUpdatedTransfer applied)]) \<or>
           (uNonce update - nonceOrZero ?stored = 2 \<and>
            (\<exists>peerPrevious (synced :: inboundApplied).
               previousUpdate = Some peerPrevious \<and>
               validateAndApplyInboundUpdate sv peerPrevious ?stored acts = Inr synced \<and>
               validateAndApplyInboundUpdate sv update (Some (inUpdatedChannel synced))
                 (inUpdatedActiveTransfers synced) = Inr applied \<and>
               saveCalls w' = saveCalls w @
                 [(inUpdatedChannel synced, inUpdatedTransfer synced),
                  (inUpdatedChannel applied, inUpdatedTransfer applied)]))"
    by blast
  from cases show "nonce (inUpdatedChannel applied) = uNonce update"
    using specValidateAndApplyInboundUpdate_nonce[of nonceError rejects derive update _ _ applied]
    by (auto simp: inboundSpec)
  from cases
  show "(uNonce update = nonceOrZero ?stored + 1 \<and>
         (\<exists>acts. validateAndApplyInboundUpdate sv update ?stored acts = Inr applied) \<and>
         saveCalls w' = saveCalls w @ [(inUpdatedChannel applied, inUpdatedTransfer applied)]) \<or>
        (\<exists>peerPrevious (synced :: inboundApplied).
           previousUpdate = Some peerPrevious \<and>
           uNonce peerPrevious = nonceOrZero ?stored + 1 \<and>
           nonce (inUpdatedChannel synced) = uNonce peerPrevious \<and>
           uNonce update = nonce (inUpdatedChannel synced) + 1 \<and>
           validateAndApplyInboundUpdate sv update (Some (inUpdatedChannel synced))
             (inUpdatedActiveTransfers synced) = Inr applied \<and>
           saveCalls w' = saveCalls w @
             [(inUpdatedChannel synced, inUpdatedTransfer synced),
              (inUpdatedChannel applied, inUpdatedTransfer applied)])"
  proof (elim disjE conjE exE)
    assume "uNonce update - nonceOrZero ?stored = 1"
      "validateAndApplyInboundUpdate sv update ?stored acts = Inr applied"
      "saveCalls w' = saveCalls w @ [(inUpdatedChannel applied, inUpdatedTransfer applied)]"
    then have "uNonce update = nonceOrZero ?stored + 1 \<and>
         validateAndApplyInboundUpdate sv update ?stored acts = Inr applied \<and>
         saveCalls w' = saveCalls w @ [(inUpdatedChannel applied, inUpdatedTransfer applied)]"
      by simp
    then show ?thesis by blast
  next
    fix peerPrevious and synced :: inboundApplied
    assume d2: "uNonce update - nonceOrZero ?stored = 2"
      and pp: "previousUpdate = Some peerPrevious"
      and v1: "validateAndApplyInboundUpdate sv peerPrevious ?stored acts = Inr synced"
      and v2: "validateAndApplyInboundUpdate sv update (Some (inUpdatedChannel synced))
                 (inUpdatedActiveTransfers synced) = Inr applied"
      and sc: "saveCalls w' = saveCalls w @
                 [(inUpdatedChannel synced, inUpdatedTransfer synced),
                  (inUpdatedChannel applied, inUpdatedTransfer applied)]"
    from specValidateAndApplyInboundUpdate_nonce[OF v1[unfolded inboundSpec]]
    have n1: "uNonce peerPrevious = nonceOrZero ?stored + 1"
      "nonce (inUpdatedChannel synced) = uNonce peerPrevious" by simp_all
    from n1 d2 have "uNonce update = nonce (inUpdatedChannel synced) + 1" by simp
    with pp n1 v2 sc
    have "previousUpdate = Some peerPrevious \<and>
           uNonce peerPrevious = nonceOrZero ?stored + 1 \<and>
           nonce (inUpdatedChannel synced) = uNonce peerPrevious \<and>
           uNonce update = nonce (inUpdatedChannel synced) + 1 \<and>
           validateAndApplyInboundUpdate sv update (Some (inUpdatedChannel synced))
             (inUpdatedActiveTransfers synced) = Inr applied \<and>
           saveCalls w' = saveCalls w @
             [(inUpdatedChannel synced, inUpdatedTransfer synced),
              (inUpdatedChannel applied, inUpdatedTransfer applied)]"
      by simp
    then show ?thesis by blast
  qed
next
  fix params w w' and res :: outboundResult
  assume run: "outbound params sv w = (Returned (Inr res), w')"
  let ?stored = "channels w (pChannelAddress params)"
  from outbound_success_cases[OF run] obtain acts where
    cases: "(\<exists>applied cu.
              validateParamsAndApplyUpdate sv params ?stored acts = Inr applied \<and>
              updatedChannel res = (outUpdatedChannel applied)\<lparr>latestUpdate := cu\<rparr> \<and>
              saveCalls w' = saveCalls w @ [(updatedChannel res, updatedTransfer res)]) \<or>
           (\<exists>counterpartyUpdate synced regenerated cu.
              uNonce counterpartyUpdate - nonceOrZero ?stored = 1 \<and>
              validateAndApplyInboundUpdate sv counterpartyUpdate ?stored acts = Inr synced \<and>
              validateParamsAndApplyUpdate sv params (Some (inUpdatedChannel synced))
                (inUpdatedActiveTransfers synced) = Inr regenerated \<and>
              updatedChannel res = (outUpdatedChannel regenerated)\<lparr>latestUpdate := cu\<rparr> \<and>
              saveCalls w' = saveCalls w @
                [(inUpdatedChannel synced, inUpdatedTransfer synced),
                 (updatedChannel res, updatedTransfer res)])"
    by blast
  from cases
  show "(nonce (updatedChannel res) = nonceOrZero ?stored + 1 \<and>
         saveCalls w' = saveCalls w @ [(updatedChannel res, updatedTransfer res)]) \<or>
        (\<exists>(counterpartyUpdate :: channelUpdate) syncedChannel syncedTransfer.
           uNonce counterpartyUpdate = nonceOrZero ?stored + 1 \<and>
           nonce syncedChannel = uNonce counterpartyUpdate \<and>
           nonce (updatedChannel res) = nonce syncedChannel + 1 \<and>
           saveCalls w' = saveCalls w @
             [(syncedChannel, syncedTransfer), (updatedChannel res, updatedTransfer res)])"
  proof (elim disjE conjE exE)
    fix applied :: outboundApplied and cu
    assume v: "validateParamsAndApplyUpdate sv params ?stored acts = Inr applied"
      and r: "updatedChannel res = (outUpdatedChannel applied)\<lparr>latestUpdate := cu\<rparr>"
      and sc: "saveCalls w' = saveCalls w @ [(updatedChannel res, updatedTransfer res)]"
    from specValidateParamsAndApplyUpdate_nonce[OF v[unfolded outboundSpec]] r sc
    show ?thesis by simp
  next
    fix counterpartyUpdate cu and synced :: inboundApplied and regenerated :: outboundApplied
    assume d: "uNonce counterpartyUpdate - nonceOrZero ?stored = 1"
      and v1: "validateAndApplyInboundUpdate sv counterpartyUpdate ?stored acts = Inr synced"
      and v2: "validateParamsAndApplyUpdate sv params (Some (inUpdatedChannel synced))
                (inUpdatedActiveTransfers synced) = Inr regenerated"
      and r: "updatedChannel res = (outUpdatedChannel regenerated)\<lparr>latestUpdate := cu\<rparr>"
      and sc: "saveCalls w' = saveCalls w @
                [(inUpdatedChannel synced, inUpdatedTransfer synced),
                 (updatedChannel res, updatedTransfer res)]"
    from specValidateAndApplyInboundUpdate_nonce[OF v1[unfolded inboundSpec]]
    have n1: "uNonce counterpartyUpdate = nonceOrZero ?stored + 1"
      "nonce (inUpdatedChannel synced) = uNonce counterpartyUpdate" by simp_all
    from specValidateParamsAndApplyUpdate_nonce[OF v2[unfolded outboundSpec]] r
    have n2: "nonce (updatedChannel res) = nonce (inUpdatedChannel synced) + 1"
      by (simp add: nonceOrZero_def)
    from n1 n2 sc
    have "uNonce counterpartyUpdate = nonceOrZero ?stored + 1 \<and>
           nonce (inUpdatedChannel synced) = uNonce counterpartyUpdate \<and>
           nonce (updatedChannel res) = nonce (inUpdatedChannel synced) + 1 \<and>
           saveCalls w' = saveCalls w @
             [(inUpdatedChannel synced, inUpdatedTransfer synced),
              (updatedChannel res, updatedTransfer res)]"
      by simp
    then show ?thesis by blast
  qed
qed

lemmas inbound_defs = inbound_def extractContextFromStore_def nonceOrZero_def syncState_def
  truthy_def inboundSyncError_def inboundApply_def returnError_def saveChannelState_def Let_def

text \<open>
  Witness for C1, on a store holding the channel at nonce 5: an inbound update at nonce 6
  saves nonce 6; an inbound update at nonce 7 with the peer's previous update at nonce 6
  saves nonce 6, then nonce 7; the same update with a previous update at nonce 100 is
  refused with \<open>SyncFailure\<close> and nothing is saved; an outbound proposal that is
  countersigned at once saves nonce 6; one that is countersigned after a sync to the
  peer's nonce 6 saves nonce 6, then nonce 7.
\<close>

theorem applied_update_nonce_step_witness:
  "fst (inbound (sampleUpdate Deposit 6 None (Some ''sigB'')) None ''inbox''
          (acceptingServices 0) (worldAt 5)) =
     Returned (Inr \<lparr>inUpdatedChannel =
                      (sampleChannel 6)\<lparr>latestUpdate := sampleUpdate Deposit 6 None (Some ''sigB'')\<rparr>,
                    inUpdatedActiveTransfers = [], inUpdatedTransfer = None\<rparr>) \<and>
   map (\<lambda>saved. nonce (fst saved))
     (saveCalls (snd (inbound (sampleUpdate Deposit 6 None (Some ''sigB'')) None ''inbox''
          (acceptingServices 0) (worldAt 5)))) = [6] \<and>
   fst (inbound (sampleUpdate Deposit 7 None (Some ''sigB''))
          (Some (sampleUpdate Deposit 6 (Some ''sigA'') (Some ''sigB''))) ''inbox''
          (acceptingServices 0) (worldAt 5)) =
     Returned (Inr \<lparr>inUpdatedChannel =
                      (sampleChannel 7)\<lparr>latestUpdate := sampleUpdate Deposit 7 None (Some ''sigB'')\<rparr>,
                    inUpdatedActiveTransfers = [], inUpdatedTransfer = None\<rparr>) \<and>
   map (\<lambda>saved. nonce (fst saved))
     (saveCalls (snd (inbound (sampleUpdate Deposit 7 None (Some ''sigB''))
          (Some (sampleUpdate Deposit 6 (Some ''sigA'') (Some ''sigB''))) ''inbox''
          (acceptingServices 0) (worldAt 5)))) = [6, 7] \<and>
   fst (inbound (sampleUpdate Deposit 7 None (Some ''sigB''))
          (Some (sampleUpdate Deposit 100 (Some ''sigA'') (Some ''sigB''))) ''inbox''
          (acceptingServices 0) (worldAt 5)) =
     Returned (Inl \<lparr>inMessage = Inbound_SyncFailure,
                    inUpdate = Some (sampleUpdate Deposit 100 (Some ''sigA'') (Some ''sigB'')),
                    inState = Some (sampleChannel 5),
                    inContext = [(''syncError'',
                       CtxMessage (Text ''Update nonce must be previousState.nonce + 1''))]\<rparr>) \<and>
   saveCalls (snd (inbound (sampleUpdate Deposit 7 None (Some ''sigB''))
          (Some (sampleUpdate Deposit 100 (Some ''sigA'') (Some ''sigB''))) ''inbox''
          (acceptingServices 0) (worldAt 5))) = [] \<and>
   fst (outbound (sampleParams Deposit) ackingServices (worldAt 5)) =
     Returned (Inr \<lparr>updatedChannel =
                      (sampleChannel 6)\<lparr>latestUpdate := sampleUpdate Deposit 6 (Some ''sigA'') (Some ''sigB'')\<rparr>,
                    updatedTransfers = [], updatedTransfer = None\<rparr>) \<and>
   map (\<lambda>saved. nonce (fst saved))
     (saveCalls (snd (outbound (sampleParams Deposit) ackingServices (worldAt 5)))) = [6] \<and>
   fst (outbound (sampleParams Deposit) (staleThenAckServices 6) (worldAt 5)) =
     Returned (Inr \<lparr>updatedChannel =
                      (sampleChannel 7)\<lparr>latestUpdate := sampleUpdate Deposit 7 (Some ''sigA'') (Some ''sigB'')\<rparr>,
                    updatedTransfers = [], updatedTransfer = None\<rparr>) \<and>
   map (\<lambda>saved. nonce (fst saved))
     (saveCalls (snd (outbound (sampleParams Deposit) (staleThenAckServices 6) (worldAt 5)))) =
     [6, 7]"
proof -
  let ?u6 = "sampleUpdate Deposit 6 None (Some ''sigB'')"
  let ?u7 = "sampleUpdate Deposit 7 None (Some ''sigB'')"
  let ?p6 = "sampleUpdate Deposit 6 (Some ''sigA'') (Some ''sigB'')"
  let ?a6 = "\<lparr>inUpdatedChannel = (sampleChannel 6)\<lparr>latestUpdate := ?u6\<rparr>,
               inUpdatedActiveTransfers = [], inUpdatedTransfer = None\<rparr>"
  let ?a7 = "\<lparr>inUpdatedChannel = (sampleChannel 7)\<lparr>latestUpdate := ?u7\<rparr>,
               inUpdatedActiveTransfers = [], inUpdatedTransfer = None\<rparr>"
  let ?r6 = "\<lparr>updatedChannel = (sampleChannel 6)\<lparr>latestUpdate := ?p6\<rparr>,
               updatedTransfers = [], updatedTransfer = None\<rparr>"
  let ?r7 = "\<lparr>updatedChannel =
                 (sampleChannel 7)\<lparr>latestUpdate := sampleUpdate Deposit 7 (Some ''sigA'') (Some ''sigB'')\<rparr>,
               updatedTransfers = [], updatedTransfer = None\<rparr>"
  have i0: "\<And>n. validateAndApplyInboundUpdate (acceptingServices n) =
              specValidateAndApplyInboundUpdate nonceErrorFixture (\<lambda>u prev acts. None)
                deriveInboundFixture"
    and o0: "\<And>n. validateParamsAndApplyUpdate (acceptingServices n) =
              specValidateParamsAndApplyUpdate (\<lambda>p prev acts. None) deriveOutboundFixture"
    by (simp_all add: acceptingServices_def)
  have i1: "validateAndApplyInboundUpdate ackingServices =
              specValidateAndApplyInboundUpdate nonceErrorFixture (\<lambda>u prev acts. None)
                deriveInboundFixture"
    and o1: "validateParamsAndApplyUpdate ackingServices =
              specValidateParamsAndApplyUpdate (\<lambda>p prev acts. None) deriveOutboundFixture"
    by (simp_all add: ackingServices_def acceptingServices_def)
  have i2: "validateAndApplyInboundUpdate (staleThenAckServices 6) =
              specValidateAndApplyInboundUpdate nonceErrorFixture (\<lambda>u prev acts. None)
                deriveInboundFixture"
    and o2: "validateParamsAndApplyUpdate (staleThenAckServices 6) =
              specValidateParamsAndApplyUpdate (\<lambda>p prev acts. None) deriveOutboundFixture"
    by (simp_all add: staleThenAckServices_def acceptingServices_def)
  \<comment> \<open>an update one ahead of the store\<close>
  have rA: "inbound ?u6 None ''inbox'' (acceptingServices 0) (worldAt 5) =
              (Returned (Inr ?a6), snd (inbound ?u6 None ''inbox'' (acceptingServices 0) (worldAt 5)))"
    by (simp add: prod_eq_iff inbound_defs fixture_defs)
  note tA = applied_update_nonce_step[OF i0[of 0] o0[of 0],
      THEN conjunct2, THEN conjunct2, THEN conjunct1, rule_format, OF rA]
  \<comment> \<open>an update two ahead of the store, with the update before it\<close>
  have rB: "inbound ?u7 (Some ?p6) ''inbox'' (acceptingServices 0) (worldAt 5) =
              (Returned (Inr ?a7),
               snd (inbound ?u7 (Some ?p6) ''inbox'' (acceptingServices 0) (worldAt 5)))"
    by (simp add: prod_eq_iff inbound_defs fixture_defs)
  note tB = applied_update_nonce_step[OF i0[of 0] o0[of 0],
      THEN conjunct2, THEN conjunct2, THEN conjunct1, rule_format, OF rB]
  \<comment> \<open>a proposal that is countersigned at once\<close>
  have rC: "outbound (sampleParams Deposit) ackingServices (worldAt 5) =
              (Returned (Inr ?r6), snd (outbound (sampleParams Deposit) ackingServices (worldAt 5)))"
    by (simp add: prod_eq_iff engine_defs fixture_defs ackingServices_def)
  note tC = applied_update_nonce_step[OF i1 o1,
      THEN conjunct2, THEN conjunct2, THEN conjunct2, rule_format, OF rC]
  \<comment> \<open>a proposal that is countersigned after a sync\<close>
  have rD: "outbound (sampleParams Deposit) (staleThenAckServices 6) (worldAt 5) =
              (Returned (Inr ?r7),
               snd (outbound (sampleParams Deposit) (staleThenAckServices 6) (worldAt 5)))"
    by (simp add: prod_eq_iff engine_defs fixture_defs staleThenAckServices_def)
  note tD = applied_update_nonce_step[OF i2 o2,
      THEN conjunct2, THEN conjunct2, THEN conjunct2, rule_format, OF rD]
  have rE: "fst (inbound ?u7 (Some (sampleUpdate Deposit 100 (Some ''sigA'') (Some ''sigB'')))
                 ''inbox'' (acceptingServices 0) (worldAt 5)) =
     Returned (Inl \<lparr>inMessage = Inbound_SyncFailure,
                    inUpdate = Some (sampleUpdate Deposit 100 (Some ''sigA'') (Some ''sigB'')),
                    inState = Some (sampleChannel 5),
                    inContext = [(''syncError'',
                       CtxMessage (Text ''Update nonce must be previousState.nonce + 1''))]\<rparr>) \<and>
   saveCalls (snd (inbound ?u7 (Some (sampleUpdate Deposit 100 (Some ''sigA'') (Some ''sigB'')))
                 ''inbox'' (acceptingServices 0) (worldAt 5))) = []"
    by (simp add: inbound_defs fixture_defs)
  have sA: "map (\<lambda>saved. nonce (fst saved))
     (saveCalls (snd (inbound ?u6 None ''inbox'' (acceptingServices 0) (worldAt 5)))) = [6]"
    using tA by (auto simp: fixture_defs nonceOrZero_def)
  have sB: "map (\<lambda>saved. nonce (fst saved))
     (saveCalls (snd (inbound ?u7 (Some ?p6) ''inbox'' (acceptingServices 0) (worldAt 5)))) = [6, 7]"
    using tB by (auto simp: fixture_defs nonceOrZero_def)
  have sC: "map (\<lambda>saved. nonce (fst saved))
     (saveCalls (snd (outbound (sampleParams Deposit) ackingServices (worldAt 5)))) = [6]"
    using tC by (auto simp: fixture_defs nonceOrZero_def)
  have sD: "map (\<lambda>saved. nonce (fst saved))
     (saveCalls (snd (outbound (sampleParams Deposit) (staleThenAckServices 6) (worldAt 5)))) = [6, 7]"
    using tD by (auto simp: fixture_defs nonceOrZero_def)
  from rA rB rC rD rE sA sB sC sD show ?thesis
    by (simp add: prod_eq_iff)
qed

subsection \<open>Supporting facts on the four cases of inbound and on the outbound retry\<close>

lemma returnError_effect:
  "returnError update inbox reason prevUpdate state ctx w = (r, w') \<Longrightarrow>
     saveCalls w' = saveCalls w \<and> channels w' = channels w \<and> sentMessages w' = sentMessages w \<and>
     (\<exists>e. r = Returned (Inl e) \<and> inMessage e = reason \<and>
          responses w' = responses w @ [ProtocolErrorResponse inbox e])"
  by (auto simp: returnError_def Let_def)

text \<open>
  With a stored context, \<open>inbound\<close> answers by the difference of the nonces: stale
  (when a channel is stored), restore, sync and apply, or apply.
\<close>

lemma inbound_by_difference:
  assumes ctx: "extractContextFromStore sv w (uChannelAddress update) = Inr (acts, stored)"
  shows "(uNonce update - nonceOrZero stored \<le> 0 \<longrightarrow>
            (\<forall>c. stored = Some c \<longrightarrow>
               inbound update previousUpdate inbox sv w =
                 returnError update inbox Inbound_StaleUpdate (Some (latestUpdate c)) stored [] w)) \<and>
         (3 \<le> uNonce update - nonceOrZero stored \<longrightarrow>
            inbound update previousUpdate inbox sv w =
              returnError update inbox Inbound_RestoreNeeded (Some update) stored
                [(''counterpartyLatestUpdate'', CtxUpdate previousUpdate),
                 (''ourLatestNonce'', CtxNumber (nonceOrZero stored))] w) \<and>
         (uNonce update - nonceOrZero stored = 2 \<longrightarrow>
            (\<forall>peerPrevious synced w1.
               previousUpdate = Some peerPrevious \<and>
               syncState peerPrevious stored acts (inboundSyncError peerPrevious stored) sv w =
                 (Inr synced, w1) \<longrightarrow>
               inbound update previousUpdate inbox sv w =
                 inboundApply update inbox (Some (inUpdatedChannel synced))
                   (inUpdatedActiveTransfers synced) sv w1)) \<and>
         (uNonce update - nonceOrZero stored = 1 \<longrightarrow>
            inbound update previousUpdate inbox sv w =
              inboundApply update inbox stored acts sv w)"
  using ctx by (auto simp: inbound_def Let_def)

text \<open>
  With a stored channel, a \<open>StaleUpdate\<close> answer whose update is not exactly one
  ahead ends \<open>outbound\<close> with \<open>RestoreNeeded\<close> after the one message; when it is
  one ahead and the sync and the regeneration succeed, exactly one more message is sent
  and its answer is final.
\<close>

lemma outbound_stale_restore:
  assumes ctx: "extractContextFromStore sv w (pChannelAddress params) = Inr (acts, Some p)"
      and applied: "validateParamsAndApplyUpdate sv params (Some p) acts = Inr applied"
      and first: "first = (outUpdate applied, Some (latestUpdate p))"
      and reply: "counterpartyReply sv (sentMessages w @ [first]) = Inl error"
      and stale: "inMessage error = Inbound_StaleUpdate"
      and update: "inUpdate error = Some cu"
      and ahead: "uNonce cu - nonce p \<noteq> 1"
  shows "outbound params sv w =
           (Returned (Inl \<lparr>outMessage = Outbound_RestoreNeeded, outParams = params,
                           outState = Some p,
                           outContext = [(''counterpartyUpdate'', CtxUpdate (Some cu)),
                                         (''latestNonce'', CtxNumber (nonce p))]\<rparr>),
            w\<lparr>sentMessages := sentMessages w @ [first]\<rparr>)"
  using assms
  by (simp add: outbound_def sendProtocolMessage_def syncStateAndRecreateUpdate_def
      nonceOrZero_def Let_def)

lemma outbound_stale_retry_once:
  assumes ctx: "extractContextFromStore sv w (pChannelAddress params) = Inr (acts, Some p)"
      and applied: "validateParamsAndApplyUpdate sv params (Some p) acts = Inr applied"
      and first: "first = (outUpdate applied, Some (latestUpdate p))"
      and reply: "counterpartyReply sv (sentMessages w @ [first]) = Inl error"
      and stale: "inMessage error = Inbound_StaleUpdate"
      and update: "inUpdate error = Some cu"
      and ahead: "uNonce cu - nonce p = 1"
      and sync: "syncState cu (Some p) acts (outboundSyncError params (Some p)) sv
                   (w\<lparr>sentMessages := sentMessages w @ [first]\<rparr>) = (Inr synced, w2)"
      and regenerated: "validateParamsAndApplyUpdate sv params (Some (inUpdatedChannel synced))
                          (inUpdatedActiveTransfers synced) = Inr regenerated"
      and second: "second = (outUpdate regenerated, Some (latestUpdate (outUpdatedChannel regenerated)))"
      and run: "outbound params sv w = (r, w')"
  shows "sentMessages w' = sentMessages w @ [first, second] \<and>
         outboundFinish sv (w2\<lparr>sentMessages := sentMessages w2 @ [second]\<rparr>) params
           (counterpartyReply sv (sentMessages w2 @ [second]))
           (Some (inUpdatedChannel synced)) regenerated = (r, w')"
proof -
  from assms have fin: "outboundFinish sv (w2\<lparr>sentMessages := sentMessages w2 @ [second]\<rparr>)
                 params (counterpartyReply sv (sentMessages w2 @ [second]))
                 (Some (inUpdatedChannel synced)) regenerated = (r, w')"
    by (simp add: outbound_def sendProtocolMessage_def syncStateAndRecreateUpdate_def
        nonceOrZero_def Let_def)
  from syncState_effect[OF sync] have "sentMessages w2 = sentMessages w @ [first]" by simp
  with outboundFinish_effect[OF fin] fin show ?thesis by simp
qed

subsection \<open>Attempts of a chain read\<close>

text \<open>
  \<open>retryWrapper\<close> calls its target at most \<open>ETH_READER_MAX_RETRIES\<close> times.
\<close>

lemma retryLoop_calls:
  assumes "retryLoop (counting f) retries res errs (n, s) = ((res', errs'), (n', s'))"
      and "1 \<le> retries"
  shows "int n' - int n \<le> max 0 (ETH_READER_MAX_RETRIES - retries)"
  using assms
proof (induction "counting f" retries res errs "(n, s)" arbitrary: n s rule: retryLoop.induct)
  case (1 retries res errs)
  show ?case
  proof (cases "retries < ETH_READER_MAX_RETRIES")
    case False
    with "1.prems" show ?thesis by simp
  next
    case True
    obtain r s1 where f: "f s = (r, s1)" by (cases "f s") auto
    show ?thesis
    proof (cases r)
      case (Inr v)
      with True f "1.prems" show ?thesis by (simp add: counting_def)
    next
      case (Inl e)
      with True f have c: "counting f (n, s) = (Inl e, (Suc n, s1))" by (simp add: counting_def)
      from "1.prems"(1) True c
      have "retryLoop (counting f) (retries + 1) (Inl e) (errs @ [chainMessage e]) (Suc n, s1) =
              ((res', errs'), (n', s'))" by simp
      from "1.hyps"[OF True c[symmetric] refl this] "1.prems"(2) True
      show ?thesis by simp
    qed
  qed
qed

lemma retryWrapper_calls:
  assumes "retryWrapper reader chain (\<lambda>provider. counting (target provider)) (n, s) = (res, (n', s'))"
  shows "int n' - int n \<le> ETH_READER_MAX_RETRIES"
proof (cases "chainProviders reader chain")
  case None
  with assms show ?thesis by (simp add: retryWrapper_def ETH_READER_MAX_RETRIES_def)
next
  case (Some provider)
  obtain r s1 where f: "target provider s = (r, s1)" by (cases "target provider s") auto
  show ?thesis
  proof (cases r)
    case (Inr v)
    with Some f assms show ?thesis
      by (simp add: retryWrapper_def counting_def ETH_READER_MAX_RETRIES_def)
  next
    case (Inl e)
    with f have c: "counting (target provider) (n, s) = (Inl e, (Suc n, s1))"
      by (simp add: counting_def)
    obtain r2 errs2 where l: "retryLoop (counting (target provider)) 1 (Inl e) [chainMessage e] (Suc n, s1)
        = ((r2, errs2), (n', s'))"
      using assms Some c
      by (cases "retryLoop (counting (target provider)) 1 (Inl e) [chainMessage e] (Suc n, s1)")
         (auto simp: retryWrapper_def split: sum.splits prod.splits)
    from retryLoop_calls[OF l] show ?thesis by (simp add: ETH_READER_MAX_RETRIES_def)
  qed
qed

end
